theory Spec2Isabelle
  imports Main "HOL-Library.AList" "HOL-Library.Char_ord" "HOL-Library.List_Lexorder"
begin

section \<open>Values of the program\<close>

text \<open>
  The tiered entry store of \<^verbatim>\<open>2025-07-30_IMPL_memory_api_phase1.py\<close>: the classes
  \<^verbatim>\<open>MemoryEntry\<close>, \<^verbatim>\<open>FileBasedMemoryStore\<close> and the method
  \<^verbatim>\<open>DistributedMemoryAPI.query\<close>. Every exception the Python code can meet is a value of
  \<open>py_error\<close>; a \<^verbatim>\<open>try ... except Exception\<close> block is a case distinction on it.
\<close>

datatype py_error =
  ValueError | TypeError | AttributeError | OSError | OverflowError | RecursionError

datatype MemoryLevel = IMMEDIATE | WORKING | LONGTERM

datatype SourceType = CHAT | AGENT | FUNCTION | API

fun MemoryLevel_value :: "MemoryLevel \<Rightarrow> string" where
  "MemoryLevel_value IMMEDIATE = ''immediate''"
| "MemoryLevel_value WORKING = ''working''"
| "MemoryLevel_value LONGTERM = ''longterm''"

fun SourceType_value :: "SourceType \<Rightarrow> string" where
  "SourceType_value CHAT = ''chat''"
| "SourceType_value AGENT = ''agent''"
| "SourceType_value FUNCTION = ''function''"
| "SourceType_value API = ''api''"

text \<open>\<^verbatim>\<open>MemoryLevel(s)\<close> and \<^verbatim>\<open>SourceType(s)\<close>: the member with that value, or ValueError.\<close>

definition MemoryLevel_call :: "string \<Rightarrow> py_error + MemoryLevel" where
  "MemoryLevel_call s =
     (if s = ''immediate'' then Inr IMMEDIATE
      else if s = ''working'' then Inr WORKING
      else if s = ''longterm'' then Inr LONGTERM
      else Inl ValueError)"

definition SourceType_call :: "string \<Rightarrow> py_error + SourceType" where
  "SourceType_call s =
     (if s = ''chat'' then Inr CHAT
      else if s = ''agent'' then Inr AGENT
      else if s = ''function'' then Inr FUNCTION
      else if s = ''api'' then Inr API
      else Inl ValueError)"

text \<open>\<^verbatim>\<open>for level in MemoryLevel\<close> runs through the members in the order of their definition.\<close>

definition all_levels :: "MemoryLevel list" where
  "all_levels = [IMMEDIATE, WORKING, LONGTERM]"

text \<open>
  The dataclasses annotate \<^verbatim>\<open>type: SourceType\<close> and \<^verbatim>\<open>level: MemoryLevel\<close>, but Python does
  not check annotations: the field holds whatever object the caller passed, and the store
  reads nothing of it but its attribute \<^verbatim>\<open>value\<close>. \<open>Member m\<close> is a member of the annotated
  enum; \<open>Valued s\<close> is an object of another class whose attribute \<^verbatim>\<open>value\<close> holds the string
  \<open>s\<close>, such as a member of another enum; \<open>Foreign r\<close> is an object without an attribute
  \<^verbatim>\<open>value\<close> (written by its \<^verbatim>\<open>repr\<close>), such as the plain string \<^verbatim>\<open>'chat'\<close>.
\<close>

datatype 'a pyfield = Member 'a | Valued string | Foreign string

text \<open>\<^verbatim>\<open>field.value\<close>\<close>

fun enum_value :: "('a \<Rightarrow> string) \<Rightarrow> 'a pyfield \<Rightarrow> py_error + string" where
  "enum_value v (Member m) = Inr (v m)"
| "enum_value v (Valued s) = Inr s"
| "enum_value v (Foreign r) = Inl AttributeError"

text \<open>
  The payload \<^verbatim>\<open>data: Dict[str, Any]\<close>. The store reads one key of it, \<^verbatim>\<open>"meta_tags"\<close>, which
  every caller fills with a list of strings; \<open>meta_tags = None\<close> is a payload without that
  key. The other keys are carried verbatim. A value is what the \<^verbatim>\<open>json\<close> module writes, or
  \<open>JObject r\<close>: an object the encoder has no rule for (written by its \<^verbatim>\<open>repr\<close>), on which
  \<^verbatim>\<open>json.dump\<close> raises TypeError. An enum member is such an object, and
  \<^verbatim>\<open>dataclasses.asdict\<close> leaves it in place: \<^verbatim>\<open>create_handoff\<close> puts
  \<^verbatim>\<open>asdict(from_source)\<close> into the payload.
\<close>

datatype json =
  JNull | JBool bool | JInt int | JStr string | JList "json list"
| JDict "(string \<times> json) list" | JObject string

record payload =
  meta_tags :: "string list option"
  other_keys :: "(string \<times> json) list"

text \<open>Whether \<^verbatim>\<open>json.dump\<close> can write the value.\<close>

fun json_ok :: "json \<Rightarrow> bool" where
  "json_ok (JList xs) = list_all json_ok xs"
| "json_ok (JDict kvs) = list_all json_ok (map snd kvs)"
| "json_ok (JObject r) = False"
| "json_ok JNull = True"
| "json_ok (JBool b) = True"
| "json_ok (JInt i) = True"
| "json_ok (JStr s) = True"

definition payload_ok :: "payload \<Rightarrow> bool" where
  "payload_ok d = list_all json_ok (map snd (other_keys d))"

record MemorySource =
  src_type :: "SourceType pyfield"
  src_id :: string
  src_session :: "string option"

record MemoryEntry =
  entry_id :: string
  timestamp :: string
  source :: MemorySource
  level :: "MemoryLevel pyfield"
  data :: payload
  ttl :: "int option"
  visibility :: string



section \<open>The environment: clock, libraries, storage medium\<close>

text \<open>
  A \<^verbatim>\<open>datetime\<close>: microseconds since 0001-01-01T00:00:00 on its own wall clock, and the
  UTC offset in microseconds of an aware value (\<open>None\<close> for a naive one).
\<close>

record pydatetime =
  ticks :: int
  utcoffset :: "int option"

text \<open>
  The files under \<^verbatim>\<open>base_path\<close>: the file of an entry in one of the three level directories,
  an index file, and \<open>OtherFile d eid\<close>, the file \<^verbatim>\<open>eid.json\<close> of a directory \<open>d\<close> that is none
  of these.
\<close>

datatype path = EntryFile MemoryLevel string | IndexFile string | OtherFile string string

text \<open>
  How \<^verbatim>\<open>with open(path, 'w') as f: json.dump(doc, f)\<close> ends on the medium: the document is
  written; \<^verbatim>\<open>open\<close> raises and the file is as it was; or \<^verbatim>\<open>open\<close> succeeds, which empties
  the file, and a write after it raises, which leaves the file cut off.
\<close>

datatype write_outcome = Written | Refused | Cut

text \<open>
  What the interpreter and the operating system supply: \<^verbatim>\<open>datetime.fromisoformat\<close>,
  \<^verbatim>\<open>fnmatch.fnmatch\<close>, the reading of \<^verbatim>\<open>datetime.now()\<close> (naive local time, taken as constant
  during one call of the store), whether a file can be opened and read, how writing a file
  ends, and whether a file can be unlinked.
\<close>

record env =
  fromisoformat :: "string \<Rightarrow> py_error + pydatetime"
  fnmatch :: "string \<Rightarrow> string \<Rightarrow> bool"
  now :: int
  can_read :: "path \<Rightarrow> bool"
  write_result :: "path \<Rightarrow> write_outcome"
  can_unlink :: "path \<Rightarrow> bool"

definition healthy :: "env \<Rightarrow> bool" where
  "healthy E = (\<forall>p. can_read E p \<and> write_result E p = Written \<and> can_unlink E p)"

text \<open>\<^verbatim>\<open>timedelta(seconds=s)\<close>, in microseconds: at most 999999999 days either way.\<close>

definition timedelta_seconds :: "int \<Rightarrow> py_error + int" where
  "timedelta_seconds s =
     (if - 999999999 \<le> s div 86400 \<and> s div 86400 \<le> 999999999 then Inr (s * 1000000)
      else Inl OverflowError)"

text \<open>The last microsecond of \<^verbatim>\<open>datetime.max\<close>, 9999-12-31T23:59:59.999999.\<close>

definition max_ticks :: int where
  "max_ticks = 3652059 * 86400 * 1000000 - 1"

definition datetime_add :: "pydatetime \<Rightarrow> int \<Rightarrow> py_error + pydatetime" where
  "datetime_add dt delta =
     (if 0 \<le> ticks dt + delta \<and> ticks dt + delta \<le> max_ticks
      then Inr (dt\<lparr>ticks := ticks dt + delta\<rparr>)
      else Inl OverflowError)"

text \<open>\<^verbatim>\<open>a > b\<close> on datetimes: a naive and an aware value do not compare.\<close>

definition datetime_gt :: "pydatetime \<Rightarrow> pydatetime \<Rightarrow> py_error + bool" where
  "datetime_gt a b =
     (case (utcoffset a, utcoffset b) of
        (None, None) \<Rightarrow> Inr (ticks b < ticks a)
      | (Some x, Some y) \<Rightarrow> Inr (ticks b - y < ticks a - x)
      | (None, Some y) \<Rightarrow> Inl TypeError
      | (Some x, None) \<Rightarrow> Inl TypeError)"

text \<open>\<^verbatim>\<open>s.replace('Z', '+00:00')\<close>\<close>

definition replace_Z :: "string \<Rightarrow> string" where
  "replace_Z s = concat (map (\<lambda>c. if c = CHR ''Z'' then ''+00:00'' else [c]) s)"

text \<open>\<^verbatim>\<open>MemoryEntry.is_expired\<close>\<close>

definition is_expired :: "env \<Rightarrow> MemoryEntry \<Rightarrow> py_error + bool" where
  "is_expired E e =
     (case ttl e of
        None \<Rightarrow> Inr False
      | Some t \<Rightarrow>
          if t = 0 then Inr False
          else
            (case fromisoformat E (replace_Z (timestamp e)) of
               Inl err \<Rightarrow> Inl err
             | Inr created \<Rightarrow>
                 (case timedelta_seconds t of
                    Inl err \<Rightarrow> Inl err
                  | Inr delta \<Rightarrow>
                      (case datetime_add created delta of
                         Inl err \<Rightarrow> Inl err
                       | Inr due \<Rightarrow> datetime_gt \<lparr>ticks = now E, utcoffset = None\<rparr> due))))"

section \<open>The store\<close>

text \<open>
  The document \<^verbatim>\<open>save_entry\<close> writes for an entry: the enum fields by their values. A file
  holds the whole document of the write that last succeeded on it, or the cut-off text a
  failed write left, which \<^verbatim>\<open>json.load\<close> rejects (an empty file or a document without its
  end); an entry file keeps it with its modification time.
\<close>

datatype 'a written = Whole 'a | Cut_off

record entry_dict =
  d_id :: string
  d_timestamp :: string
  d_source_type :: string
  d_source_id :: string
  d_source_session :: "string option"
  d_level :: string
  d_data :: payload
  d_ttl :: "int option"
  d_visibility :: string

record entry_file =
  mtime :: int
  content :: "entry_dict written"

type_synonym index_dict = "(string \<times> string list) list"

text \<open>
  The directory tree under \<^verbatim>\<open>base_path\<close>: the entry files of the three level directories, in
  the order a directory listing gives them, and the index files of \<^verbatim>\<open>indices/\<close> by index
  type (a type that is not listed has no file yet). Entry ids are plain file names without
  a path separator (every caller passes a \<^verbatim>\<open>uuid4\<close> string), so a level and an id name one
  file. The clock reading of the call that writes a file stands for the modification time
  the file system gives it. Files outside the level directories and \<^verbatim>\<open>indices/\<close> are not
  kept: no method of the store reads them.
\<close>

record store =
  files :: "((MemoryLevel \<times> string) \<times> entry_file) list"
  indices :: "(string \<times> index_dict written) list"

definition empty_store :: store where
  "empty_store = \<lparr>files = [], indices = []\<rparr>"

definition get_file_path :: "MemoryLevel \<Rightarrow> string \<Rightarrow> path" where
  "get_file_path lv eid = EntryFile lv eid"

definition get_index_path :: "string \<Rightarrow> path" where
  "get_index_path index_type = IndexFile index_type"

text \<open>
  \<^verbatim>\<open>_load_index\<close>: an empty dict when the file does not exist; \<^verbatim>\<open>json.load\<close> raises
  JSONDecodeError, a ValueError, on a cut-off file.
\<close>

definition load_index :: "env \<Rightarrow> store \<Rightarrow> string \<Rightarrow> py_error + index_dict" where
  "load_index E st index_type =
     (case map_of (indices st) index_type of
        None \<Rightarrow> Inr []
      | Some c \<Rightarrow>
          if can_read E (get_index_path index_type)
          then (case c of Whole index_data \<Rightarrow> Inr index_data | Cut_off \<Rightarrow> Inl ValueError)
          else Inl OSError)"

text \<open>\<^verbatim>\<open>_save_index\<close>: the error it raised, if any, and the store it left behind.\<close>

definition save_index ::
  "env \<Rightarrow> string \<Rightarrow> index_dict \<Rightarrow> store \<Rightarrow> py_error option \<times> store" where
  "save_index E index_type index_data st =
     (case write_result E (get_index_path index_type) of
        Written \<Rightarrow> (None, st\<lparr>indices := AList.update index_type (Whole index_data) (indices st)\<rparr>)
      | Refused \<Rightarrow> (Some OSError, st)
      | Cut \<Rightarrow> (Some OSError, st\<lparr>indices := AList.update index_type Cut_off (indices st)\<rparr>))"

text \<open>A store none of whose three index files is cut off.\<close>

definition index_whole :: "store \<Rightarrow> string \<Rightarrow> bool" where
  "index_whole st index_type = (map_of (indices st) index_type \<noteq> Some Cut_off)"

definition intact :: "store \<Rightarrow> bool" where
  "intact st = (index_whole st ''sessions'' \<and> index_whole st ''tags'' \<and> index_whole st ''sources'')"

text \<open>
  The two branches of \<^verbatim>\<open>_update_indices\<close> on one key of one index:
  \<^verbatim>\<open>if key not in index: index[key] = []\<close> followed by \<^verbatim>\<open>index[key].append(entry.id)\<close>, and
  \<^verbatim>\<open>if key in index: index[key].remove(entry.id)\<close>, where \<^verbatim>\<open>list.remove\<close> takes out the first
  occurrence and raises ValueError when there is none. Any other action changes nothing.
\<close>

definition index_add :: "string \<Rightarrow> string \<Rightarrow> index_dict \<Rightarrow> index_dict" where
  "index_add key eid index_data =
     (case map_of index_data key of
        None \<Rightarrow> index_data @ [(key, [eid])]
      | Some ids \<Rightarrow> AList.update key (ids @ [eid]) index_data)"

definition index_remove :: "string \<Rightarrow> string \<Rightarrow> index_dict \<Rightarrow> py_error + index_dict" where
  "index_remove key eid index_data =
     (case map_of index_data key of
        None \<Rightarrow> Inr index_data
      | Some ids \<Rightarrow>
          if List.member ids eid then Inr (AList.update key (remove1 eid ids) index_data)
          else Inl ValueError)"

definition index_apply ::
  "string \<Rightarrow> string \<Rightarrow> string \<Rightarrow> index_dict \<Rightarrow> py_error + index_dict" where
  "index_apply action key eid index_data =
     (if action = ''add'' then Inr (index_add key eid index_data)
      else if action = ''remove'' then index_remove key eid index_data
      else Inr index_data)"

fun update_tags :: "string \<Rightarrow> string \<Rightarrow> string list \<Rightarrow> index_dict \<Rightarrow> py_error + index_dict" where
  "update_tags action eid [] index_data = Inr index_data"
| "update_tags action eid (tag # tags) index_data =
     (case index_apply action tag eid index_data of
        Inl err \<Rightarrow> Inl err
      | Inr index_data' \<Rightarrow> update_tags action eid tags index_data')"

text \<open>The three parts of \<^verbatim>\<open>_update_indices\<close>: load one index, change it, save it.\<close>

definition update_session_index ::
  "env \<Rightarrow> MemoryEntry \<Rightarrow> string \<Rightarrow> store \<Rightarrow> py_error option \<times> store" where
  "update_session_index E entry action st =
     (case load_index E st ''sessions'' of
        Inl err \<Rightarrow> (Some err, st)
      | Inr session_index \<Rightarrow>
          (case (case src_session (source entry) of
                   None \<Rightarrow> Inr session_index
                 | Some s \<Rightarrow>
                     if s = [] then Inr session_index
                     else index_apply action s (entry_id entry) session_index) of
             Inl err \<Rightarrow> (Some err, st)
           | Inr session_index' \<Rightarrow> save_index E ''sessions'' session_index' st))"

definition update_tag_index ::
  "env \<Rightarrow> MemoryEntry \<Rightarrow> string \<Rightarrow> store \<Rightarrow> py_error option \<times> store" where
  "update_tag_index E entry action st =
     (case load_index E st ''tags'' of
        Inl err \<Rightarrow> (Some err, st)
      | Inr tag_index \<Rightarrow>
          (case update_tags action (entry_id entry)
                  (case meta_tags (data entry) of None \<Rightarrow> [] | Some tags \<Rightarrow> tags) tag_index of
             Inl err \<Rightarrow> (Some err, st)
           | Inr tag_index' \<Rightarrow> save_index E ''tags'' tag_index' st))"

definition update_source_index ::
  "env \<Rightarrow> MemoryEntry \<Rightarrow> string \<Rightarrow> store \<Rightarrow> py_error option \<times> store" where
  "update_source_index E entry action st =
     (case load_index E st ''sources'' of
        Inl err \<Rightarrow> (Some err, st)
      | Inr source_index \<Rightarrow>
          (case enum_value SourceType_value (src_type (source entry)) of
             Inl err \<Rightarrow> (Some err, st)
           | Inr tv \<Rightarrow>
               (case index_apply action (tv @ '':'' @ src_id (source entry)) (entry_id entry)
                       source_index of
                  Inl err \<Rightarrow> (Some err, st)
                | Inr source_index' \<Rightarrow> save_index E ''sources'' source_index' st)))"

text \<open>
  \<^verbatim>\<open>_update_indices\<close>: the error it raised, if any, and the store it left behind (an index
  saved before the error stays saved).
\<close>

definition update_indices :: "env \<Rightarrow> MemoryEntry \<Rightarrow> string \<Rightarrow> store \<Rightarrow> py_error option \<times> store" where
  "update_indices E entry action st =
     (case update_session_index E entry action st of
        (Some err, st1) \<Rightarrow> (Some err, st1)
      | (None, st1) \<Rightarrow>
          (case update_tag_index E entry action st1 of
             (Some err, st2) \<Rightarrow> (Some err, st2)
           | (None, st2) \<Rightarrow> update_source_index E entry action st2))"

text \<open>The dict \<^verbatim>\<open>save_entry\<close> builds, from the values of the two enum fields.\<close>

definition to_dict :: "string \<Rightarrow> string \<Rightarrow> MemoryEntry \<Rightarrow> entry_dict" where
  "to_dict level_value type_value entry =
     \<lparr>d_id = entry_id entry, d_timestamp = timestamp entry,
      d_source_type = type_value, d_source_id = src_id (source entry),
      d_source_session = src_session (source entry), d_level = level_value,
      d_data = data entry, d_ttl = ttl entry, d_visibility = visibility entry\<rparr>"

text \<open>
  \<^verbatim>\<open>_get_file_path(entry.level, entry.id)\<close> in \<^verbatim>\<open>save_entry\<close>, where the level is whatever
  object the entry holds: \<^verbatim>\<open>base_path / level.value / f"{entry_id}.json"\<close>. The value of an
  object that is no member names one of the level directories or a directory of its own (a
  plain directory name other than \<^verbatim>\<open>indices\<close>).
\<close>

definition entry_path :: "MemoryLevel pyfield \<Rightarrow> string \<Rightarrow> py_error + path" where
  "entry_path lev eid =
     (case enum_value MemoryLevel_value lev of
        Inl err \<Rightarrow> Inl err
      | Inr s \<Rightarrow>
          (case MemoryLevel_call s of
             Inr lv \<Rightarrow> Inr (get_file_path lv eid)
           | Inl err \<Rightarrow> Inr (OtherFile s eid)))"

text \<open>What a write to a file of the store leaves in it.\<close>

definition put_file :: "env \<Rightarrow> path \<Rightarrow> entry_dict written \<Rightarrow> store \<Rightarrow> store" where
  "put_file E p c st =
     (case p of
        EntryFile lv eid \<Rightarrow>
          st\<lparr>files := AList.update (lv, eid) \<lparr>mtime = now E, content = c\<rparr> (files st)\<rparr>
      | IndexFile t \<Rightarrow> st
      | OtherFile d eid \<Rightarrow> st)"

text \<open>
  \<^verbatim>\<open>save_entry\<close>: \<^verbatim>\<open>entry.level.value\<close> and \<^verbatim>\<open>entry.source.type.value\<close> raise AttributeError
  on an object without that attribute, before the file is opened. \<^verbatim>\<open>open(file_path, 'w')\<close>
  empties the file; \<^verbatim>\<open>json.dump\<close> then writes the document piece by piece and raises
  TypeError on reaching a value it cannot encode, or the medium fails under it: both leave
  the file cut off. Every exception ends in \<^verbatim>\<open>return False\<close>.
\<close>

definition save_entry :: "env \<Rightarrow> store \<Rightarrow> MemoryEntry \<Rightarrow> bool \<times> store" where
  "save_entry E st entry =
     (case entry_path (level entry) (entry_id entry) of
        Inl err \<Rightarrow> (False, st)
      | Inr file_path \<Rightarrow>
          (case enum_value SourceType_value (src_type (source entry)) of
             Inl err \<Rightarrow> (False, st)
           | Inr type_value \<Rightarrow>
               (case enum_value MemoryLevel_value (level entry) of
                  Inl err \<Rightarrow> (False, st)
                | Inr level_value \<Rightarrow>
                    (case write_result E file_path of
                       Refused \<Rightarrow> (False, st)
                     | Cut \<Rightarrow> (False, put_file E file_path Cut_off st)
                     | Written \<Rightarrow>
                         if payload_ok (data entry) then
                           (case update_indices E entry ''add''
                                   (put_file E file_path
                                      (Whole (to_dict level_value type_value entry)) st) of
                              (Some err, st') \<Rightarrow> (False, st')
                            | (None, st') \<Rightarrow> (True, st'))
                         else (False, put_file E file_path Cut_off st)))))"

text \<open>
  The reconstruction of the entry in \<^verbatim>\<open>load_entry\<close>, from the dict and from the file:
  \<^verbatim>\<open>json.load\<close> raises JSONDecodeError, a ValueError, on a cut-off file.
\<close>

definition of_dict :: "entry_dict \<Rightarrow> py_error + MemoryEntry" where
  "of_dict d =
     (case SourceType_call (d_source_type d) of
        Inl err \<Rightarrow> Inl err
      | Inr t \<Rightarrow>
          (case MemoryLevel_call (d_level d) of
             Inl err \<Rightarrow> Inl err
           | Inr lv \<Rightarrow>
               Inr \<lparr>entry_id = d_id d, timestamp = d_timestamp d,
                    source = \<lparr>src_type = Member t, src_id = d_source_id d,
                              src_session = d_source_session d\<rparr>,
                    level = Member lv, data = d_data d, ttl = d_ttl d,
                    visibility = d_visibility d\<rparr>))"

definition read_entry :: "entry_file \<Rightarrow> py_error + MemoryEntry" where
  "read_entry f = (case content f of Whole d \<Rightarrow> of_dict d | Cut_off \<Rightarrow> Inl ValueError)"

text \<open>
  \<^verbatim>\<open>load_entry\<close> and \<^verbatim>\<open>delete_entry\<close> call each other: an expired entry makes \<^verbatim>\<open>load_entry\<close>
  call \<^verbatim>\<open>delete_entry\<close>, which starts by calling \<^verbatim>\<open>load_entry\<close> on the same file. The first
  argument after the environment is the number of nested calls the interpreter still
  allows: a call at depth 0 raises RecursionError in the caller, whose \<^verbatim>\<open>except Exception\<close>
  catches it. Inside \<^verbatim>\<open>load_entry\<close> every exception ends in \<^verbatim>\<open>return None\<close>, inside
  \<^verbatim>\<open>delete_entry\<close> in \<^verbatim>\<open>return False\<close>.
\<close>

fun load_entry ::
    "env \<Rightarrow> nat \<Rightarrow> store \<Rightarrow> MemoryLevel \<Rightarrow> string \<Rightarrow> py_error + (MemoryEntry option \<times> store)"
  and delete_entry ::
    "env \<Rightarrow> nat \<Rightarrow> store \<Rightarrow> MemoryLevel \<Rightarrow> string \<Rightarrow> py_error + (bool \<times> store)" where
  "load_entry E 0 st lv eid = Inl RecursionError"
| "load_entry E (Suc depth) st lv eid =
     Inr (case map_of (files st) (lv, eid) of
            None \<Rightarrow> (None, st)
          | Some f \<Rightarrow>
              if \<not> can_read E (get_file_path lv eid) then (None, st)
              else
                (case read_entry f of
                   Inl err \<Rightarrow> (None, st)
                 | Inr entry \<Rightarrow>
                     (case is_expired E entry of
                        Inl err \<Rightarrow> (None, st)
                      | Inr expired \<Rightarrow>
                          if expired then
                            (case delete_entry E depth st lv eid of
                               Inl err \<Rightarrow> (None, st)
                             | Inr (ok, st') \<Rightarrow> (None, st'))
                          else (Some entry, st))))"
| "delete_entry E 0 st lv eid = Inl RecursionError"
| "delete_entry E (Suc depth) st lv eid =
     Inr (case load_entry E depth st lv eid of
            Inl err \<Rightarrow> (False, st)
          | Inr (found, st1) \<Rightarrow>
              (case (case found of
                       None \<Rightarrow> (None, st1)
                     | Some entry \<Rightarrow> update_indices E entry ''remove'' st1) of
                 (Some err, st2) \<Rightarrow> (False, st2)
               | (None, st2) \<Rightarrow>
                   (case map_of (files st2) (lv, eid) of
                      None \<Rightarrow> (True, st2)
                    | Some f \<Rightarrow>
                        if can_unlink E (get_file_path lv eid)
                        then (True, st2\<lparr>files := AList.delete (lv, eid) (files st2)\<rparr>)
                        else (False, st2))))"

text \<open>\<^verbatim>\<open>level_path.glob("*.json")\<close> with \<^verbatim>\<open>file_path.stem\<close>: the ids of the files of one level.\<close>

definition level_files :: "store \<Rightarrow> MemoryLevel \<Rightarrow> (string \<times> entry_file) list" where
  "level_files st lv = map (\<lambda>(k, f). (snd k, f)) (filter (\<lambda>(k, f). fst k = lv) (files st))"

text \<open>
  \<^verbatim>\<open>clean_expired\<close> has no \<^verbatim>\<open>try\<close>: an exception leaves it, with the store as it is by then.
  The body of its inner loop, over the ids of one level:
\<close>

fun clean_level ::
  "env \<Rightarrow> nat \<Rightarrow> MemoryLevel \<Rightarrow> string list \<Rightarrow> nat \<Rightarrow> store \<Rightarrow> (py_error + nat) \<times> store" where
  "clean_level E depth lv [] cleaned st = (Inr cleaned, st)"
| "clean_level E depth lv (eid # eids) cleaned st =
     (case load_entry E depth st lv eid of
        Inl err \<Rightarrow> (Inl err, st)
      | Inr (None, st1) \<Rightarrow> clean_level E depth lv eids cleaned st1
      | Inr (Some entry, st1) \<Rightarrow>
          (case is_expired E entry of
             Inl err \<Rightarrow> (Inl err, st1)
           | Inr expired \<Rightarrow>
               if expired then
                 (case delete_entry E depth st1 lv eid of
                    Inl err \<Rightarrow> (Inl err, st1)
                  | Inr (ok, st2) \<Rightarrow> clean_level E depth lv eids (cleaned + 1) st2)
               else clean_level E depth lv eids cleaned st1))"

fun clean_levels ::
  "env \<Rightarrow> nat \<Rightarrow> MemoryLevel list \<Rightarrow> nat \<Rightarrow> store \<Rightarrow> (py_error + nat) \<times> store" where
  "clean_levels E depth [] cleaned st = (Inr cleaned, st)"
| "clean_levels E depth (lv # lvs) cleaned st =
     (case clean_level E depth lv (map fst (level_files st lv)) cleaned st of
        (Inl err, st') \<Rightarrow> (Inl err, st')
      | (Inr cleaned', st') \<Rightarrow> clean_levels E depth lvs cleaned' st')"

definition clean_expired :: "env \<Rightarrow> nat \<Rightarrow> store \<Rightarrow> (py_error + nat) \<times> store" where
  "clean_expired E depth st = clean_levels E depth all_levels 0 st"

section \<open>Queries\<close>

text \<open>
  The inner loop of \<^verbatim>\<open>query_by_session\<close> and \<^verbatim>\<open>query_by_tags\<close>: the first level at which
  \<^verbatim>\<open>load_entry\<close> returns an entry. The outer loop collects the hits.
\<close>

fun first_hit ::
  "env \<Rightarrow> nat \<Rightarrow> string \<Rightarrow> MemoryLevel list \<Rightarrow> store \<Rightarrow> (py_error + MemoryEntry option) \<times> store" where
  "first_hit E depth eid [] st = (Inr None, st)"
| "first_hit E depth eid (lv # lvs) st =
     (case load_entry E depth st lv eid of
        Inl err \<Rightarrow> (Inl err, st)
      | Inr (Some entry, st1) \<Rightarrow> (Inr (Some entry), st1)
      | Inr (None, st1) \<Rightarrow> first_hit E depth eid lvs st1)"

fun resolve_ids ::
  "env \<Rightarrow> nat \<Rightarrow> string list \<Rightarrow> store \<Rightarrow> (py_error + MemoryEntry list) \<times> store" where
  "resolve_ids E depth [] st = (Inr [], st)"
| "resolve_ids E depth (eid # eids) st =
     (case first_hit E depth eid all_levels st of
        (Inl err, st1) \<Rightarrow> (Inl err, st1)
      | (Inr hit, st1) \<Rightarrow>
          (case resolve_ids E depth eids st1 of
             (Inl err, st2) \<Rightarrow> (Inl err, st2)
           | (Inr entries, st2) \<Rightarrow>
               (Inr ((case hit of None \<Rightarrow> [] | Some entry \<Rightarrow> [entry]) @ entries), st2)))"

definition query_by_session ::
  "env \<Rightarrow> nat \<Rightarrow> store \<Rightarrow> string \<Rightarrow> (py_error + MemoryEntry list) \<times> store" where
  "query_by_session E depth st session_id =
     (case load_index E st ''sessions'' of
        Inl err \<Rightarrow> (Inl err, st)
      | Inr session_index \<Rightarrow>
          resolve_ids E depth
            (case map_of session_index session_id of None \<Rightarrow> [] | Some ids \<Rightarrow> ids) st)"

text \<open>
  The ids one tag of the request contributes: a tag with a \<^verbatim>\<open>*\<close> is matched against every
  indexed tag, any other tag is looked up. The ids go into a Python \<^verbatim>\<open>set\<close>, which is
  iterated in an order of its own: \<open>remdups\<close> is one such order.
\<close>

definition ids_for_tag :: "env \<Rightarrow> index_dict \<Rightarrow> string \<Rightarrow> string list" where
  "ids_for_tag E tag_index tag =
     (if CHR ''*'' \<in> set tag
      then concat (map snd (filter (\<lambda>(indexed_tag, ids). fnmatch E indexed_tag tag) tag_index))
      else (case map_of tag_index tag of None \<Rightarrow> [] | Some ids \<Rightarrow> ids))"

definition query_by_tags ::
  "env \<Rightarrow> nat \<Rightarrow> store \<Rightarrow> string list \<Rightarrow> (py_error + MemoryEntry list) \<times> store" where
  "query_by_tags E depth st tags =
     (case load_index E st ''tags'' of
        Inl err \<Rightarrow> (Inl err, st)
      | Inr tag_index \<Rightarrow>
          resolve_ids E depth (remdups (concat (map (ids_for_tag E tag_index) tags))) st)"

text \<open>
  \<^verbatim>\<open>sorted(xs, key=k, reverse=True)\<close>: Python reverses the list, sorts it stably and reverses
  it again, so that equal keys keep their order.
\<close>

definition sorted_reverse :: "('a \<Rightarrow> 'k::linorder) \<Rightarrow> 'a list \<Rightarrow> 'a list" where
  "sorted_reverse k xs = rev (sort_key k (rev xs))"

text \<open>
  The branch of \<^verbatim>\<open>query\<close> without session and tags: of every level the 20 files modified
  last, each loaded.
\<close>

fun load_each ::
  "env \<Rightarrow> nat \<Rightarrow> MemoryLevel \<Rightarrow> string list \<Rightarrow> store \<Rightarrow> (py_error + MemoryEntry list) \<times> store" where
  "load_each E depth lv [] st = (Inr [], st)"
| "load_each E depth lv (eid # eids) st =
     (case load_entry E depth st lv eid of
        Inl err \<Rightarrow> (Inl err, st)
      | Inr (found, st1) \<Rightarrow>
          (case load_each E depth lv eids st1 of
             (Inl err, st2) \<Rightarrow> (Inl err, st2)
           | (Inr entries, st2) \<Rightarrow>
               (Inr ((case found of None \<Rightarrow> [] | Some entry \<Rightarrow> [entry]) @ entries), st2)))"

fun recent_entries ::
  "env \<Rightarrow> nat \<Rightarrow> MemoryLevel list \<Rightarrow> store \<Rightarrow> (py_error + MemoryEntry list) \<times> store" where
  "recent_entries E depth [] st = (Inr [], st)"
| "recent_entries E depth (lv # lvs) st =
     (case load_each E depth lv
             (map fst (take 20 (sorted_reverse (\<lambda>(eid, f). mtime f) (level_files st lv)))) st of
        (Inl err, st1) \<Rightarrow> (Inl err, st1)
      | (Inr entries, st1) \<Rightarrow>
          (case recent_entries E depth lvs st1 of
             (Inl err, st2) \<Rightarrow> (Inl err, st2)
           | (Inr others, st2) \<Rightarrow> (Inr (entries @ others), st2)))"

text \<open>The filter on \<^verbatim>\<open>since\<close>: parsing or comparing a timestamp may raise.\<close>

fun filter_since :: "env \<Rightarrow> pydatetime \<Rightarrow> MemoryEntry list \<Rightarrow> py_error + MemoryEntry list" where
  "filter_since E since [] = Inr []"
| "filter_since E since (e # es) =
     (case fromisoformat E (replace_Z (timestamp e)) of
        Inl err \<Rightarrow> Inl err
      | Inr created \<Rightarrow>
          (case datetime_gt created since of
             Inl err \<Rightarrow> Inl err
           | Inr later \<Rightarrow>
               (case filter_since E since es of
                  Inl err \<Rightarrow> Inl err
                | Inr es' \<Rightarrow> Inr (if later then e # es' else es'))))"

text \<open>
  \<^verbatim>\<open>DistributedMemoryAPI.query\<close>. An empty \<^verbatim>\<open>session_id\<close> and an empty list of tags are
  false in Python; the result is sorted by the timestamp strings, compared as strings.
\<close>

definition query ::
  "env \<Rightarrow> nat \<Rightarrow> store \<Rightarrow> string list option \<Rightarrow> string option \<Rightarrow> MemoryLevel option
     \<Rightarrow> pydatetime option \<Rightarrow> (py_error + MemoryEntry list) \<times> store" where
  "query E depth st tags session_id lv since =
     (case (case (if session_id = Some [] then None else session_id) of
              Some s \<Rightarrow> query_by_session E depth st s
            | None \<Rightarrow>
                (case (if tags = Some [] then None else tags) of
                   Some ts \<Rightarrow> query_by_tags E depth st ts
                 | None \<Rightarrow> recent_entries E depth all_levels st)) of
        (Inl err, st') \<Rightarrow> (Inl err, st')
      | (Inr results, st') \<Rightarrow>
          (case (case since of
                   None \<Rightarrow> Inr (case lv of
                                  None \<Rightarrow> results
                                | Some l \<Rightarrow> filter (\<lambda>e. level e = Member l) results)
                 | Some s \<Rightarrow>
                     filter_since E s
                       (case lv of
                          None \<Rightarrow> results
                        | Some l \<Rightarrow> filter (\<lambda>e. level e = Member l) results)) of
             Inl err \<Rightarrow> (Inl err, st')
           | Inr results' \<Rightarrow> (Inr (sorted_reverse timestamp results'), st')))"

section \<open>A concrete environment\<close>

text \<open>
  \<^verbatim>\<open>datetime.fromisoformat\<close> as Python 3.11 implements it (earlier versions accept fewer
  strings). A string is taken in its UTF-8 encoding, as the parser of the interpreter takes
  it. The grammar: a date \<^verbatim>\<open>YYYY-MM-DD\<close>,
  \<^verbatim>\<open>YYYYMMDD\<close>, \<^verbatim>\<open>YYYY-Www\<close>, \<^verbatim>\<open>YYYYWww\<close>, \<^verbatim>\<open>YYYY-Www-D\<close> or \<^verbatim>\<open>YYYYWwwD\<close>; then nothing, or
  any one character and a time \<^verbatim>\<open>HH[:MM[:SS[.f+]]]\<close> (the colons may all be left out, and
  the fraction may start with a comma), followed by nothing, \<^verbatim>\<open>Z\<close> or an offset
  \<^verbatim>\<open>+HH[:MM[:SS[.f+]]]\<close>.
\<close>

definition is_digit :: "char \<Rightarrow> bool" where
  "is_digit c = (CHR ''0'' \<le> c \<and> c \<le> CHR ''9'')"

text \<open>The number the first \<open>n\<close> characters write, when they are digits, and the rest.\<close>

definition take_digits :: "nat \<Rightarrow> string \<Rightarrow> (int \<times> string) option" where
  "take_digits n s =
     (if n \<le> length s \<and> list_all is_digit (take n s)
      then Some (foldl (\<lambda>v c. 10 * v + (of_char c - 48)) 0 (take n s), drop n s)
      else None)"

definition char_at :: "string \<Rightarrow> nat \<Rightarrow> char option" where
  "char_at s i = (if i < length s then Some (s ! i) else None)"

text \<open>Where the date ends, in a string of at least 7 characters.\<close>

definition find_isoformat_datetime_separator :: "string \<Rightarrow> nat option" where
  "find_isoformat_datetime_separator s =
     (if length s = 7 then Some 7
      else if char_at s 4 = Some CHR ''-'' then
        (if char_at s 5 = Some CHR ''W'' then
           (if length s < 8 then None
            else if char_at s 8 = Some CHR ''-'' then
              (if length s = 9 then None
               else if (case char_at s 10 of None \<Rightarrow> False | Some c \<Rightarrow> is_digit c) then Some 8
               else Some 10)
            else Some 8)
         else Some 10)
      else if char_at s 4 = Some CHR ''W'' then
        (if 7 + length (takeWhile is_digit (drop 7 s)) < 9
         then Some (7 + length (takeWhile is_digit (drop 7 s)))
         else if even (7 + length (takeWhile is_digit (drop 7 s))) then Some 7
         else Some 8)
      else Some 8)"

definition is_leap :: "int \<Rightarrow> bool" where
  "is_leap y = (y mod 4 = 0 \<and> (y mod 400 = 0 \<or> y mod 100 \<noteq> 0))"

definition days_in_month :: "int \<Rightarrow> int \<Rightarrow> int" where
  "days_in_month y m =
     (if m = 2 then (if is_leap y then 29 else 28)
      else if m = 4 \<or> m = 6 \<or> m = 9 \<or> m = 11 then 30 else 31)"

definition days_before_year :: "int \<Rightarrow> int" where
  "days_before_year y = (y - 1) * 365 + (y - 1) div 4 - (y - 1) div 100 + (y - 1) div 400"

definition days_before_month :: "int \<Rightarrow> int \<Rightarrow> int" where
  "days_before_month y m =
     [0, 0, 31, 59, 90, 120, 151, 181, 212, 243, 273, 304, 334] ! nat m
       + (if 2 < m \<and> is_leap y then 1 else 0)"

definition ymd_to_ord :: "int \<Rightarrow> int \<Rightarrow> int \<Rightarrow> int" where
  "ymd_to_ord y m d = days_before_year y + days_before_month y m + d"

text \<open>The day number of a calendar date and of a week date of the years 1 to 9999.\<close>

definition calendar_date :: "int \<Rightarrow> int \<Rightarrow> int \<Rightarrow> int option" where
  "calendar_date y m d =
     (if 1 \<le> y \<and> y \<le> 9999 \<and> 1 \<le> m \<and> m \<le> 12 \<and> 1 \<le> d \<and> d \<le> days_in_month y m
      then Some (ymd_to_ord y m d)
      else None)"

definition iso_week1_monday :: "int \<Rightarrow> int" where
  "iso_week1_monday y =
     (if 3 < (ymd_to_ord y 1 1 + 6) mod 7
      then ymd_to_ord y 1 1 - (ymd_to_ord y 1 1 + 6) mod 7 + 7
      else ymd_to_ord y 1 1 - (ymd_to_ord y 1 1 + 6) mod 7)"

definition week_date :: "int \<Rightarrow> int \<Rightarrow> int \<Rightarrow> int option" where
  "week_date y w d =
     (if 1 \<le> y \<and> y \<le> 9999 \<and> 0 < d \<and> d < 8
         \<and> (0 < w \<and> w < 53
             \<or> w = 53 \<and> (ymd_to_ord y 1 1 mod 7 = 4 \<or> ymd_to_ord y 1 1 mod 7 = 3 \<and> is_leap y))
         \<and> 1 \<le> iso_week1_monday y + (w - 1) * 7 + (d - 1)
         \<and> iso_week1_monday y + (w - 1) * 7 + (d - 1) \<le> 3652059
      then Some (iso_week1_monday y + (w - 1) * 7 + (d - 1))
      else None)"

text \<open>The date at the head of \<open>s\<close>, as a day number; \<open>sep\<close> is where the date ends.\<close>

definition parse_week_date :: "int \<Rightarrow> bool \<Rightarrow> nat \<Rightarrow> string \<Rightarrow> nat \<Rightarrow> int option" where
  "parse_week_date y uses_sep used p sep =
     (case take_digits 2 p of
        None \<Rightarrow> None
      | Some (w, q) \<Rightarrow>
          if used + 2 < sep then
            (if uses_sep then
               (if take 1 q = ''-'' then
                  (case take_digits 1 (drop 1 q) of
                     None \<Rightarrow> None
                   | Some (d, r) \<Rightarrow> week_date y w d)
                else None)
             else
               (case take_digits 1 q of
                  None \<Rightarrow> None
                | Some (d, r) \<Rightarrow> week_date y w d))
          else week_date y w 1)"

definition parse_calendar_date :: "int \<Rightarrow> bool \<Rightarrow> string \<Rightarrow> int option" where
  "parse_calendar_date y uses_sep p =
     (case take_digits 2 p of
        None \<Rightarrow> None
      | Some (m, q) \<Rightarrow>
          if uses_sep then
            (if take 1 q = ''-'' then
               (case take_digits 2 (drop 1 q) of
                  None \<Rightarrow> None
                | Some (d, r) \<Rightarrow> calendar_date y m d)
             else None)
          else
            (case take_digits 2 q of
               None \<Rightarrow> None
             | Some (d, r) \<Rightarrow> calendar_date y m d))"

definition parse_isoformat_date :: "string \<Rightarrow> nat \<Rightarrow> int option" where
  "parse_isoformat_date s sep =
     (case take_digits 4 s of
        None \<Rightarrow> None
      | Some (y, p) \<Rightarrow>
          if take 1 p = ''-'' then
            (if take 1 (drop 1 p) = ''W'' then parse_week_date y True 6 (drop 2 p) sep
             else parse_calendar_date y True (drop 1 p))
          else
            (if take 1 p = ''W'' then parse_week_date y False 5 (drop 1 p) sep
             else parse_calendar_date y False p))"

text \<open>
  Hours, minutes, seconds and fraction at the head of \<open>t\<close>, of which the first \<open>len\<close>
  characters belong to this part: the values, the microseconds, and whether characters are
  left over. The first argument counts the two-digit fields still to be read, \<open>vals\<close> holds
  those read so far.
\<close>

definition hms_of :: "int list \<Rightarrow> int \<Rightarrow> bool \<Rightarrow> int \<times> int \<times> int \<times> int \<times> bool" where
  "hms_of vals us trailing =
     ((vals @ [0, 0, 0]) ! 0, (vals @ [0, 0, 0]) ! 1, (vals @ [0, 0, 0]) ! 2, us, trailing)"

definition parse_fraction ::
  "string \<Rightarrow> nat \<Rightarrow> nat \<Rightarrow> int list \<Rightarrow> (int \<times> int \<times> int \<times> int \<times> bool) option" where
  "parse_fraction t len pos vals =
     (case take_digits (min 6 (len - pos)) (drop pos t) of
        None \<Rightarrow> None
      | Some (us, rest) \<Rightarrow>
          Some (hms_of vals (us * 10 ^ (6 - min 6 (len - pos))) (dropWhile is_digit rest \<noteq> [])))"

fun parse_fields ::
  "nat \<Rightarrow> string \<Rightarrow> nat \<Rightarrow> nat \<Rightarrow> bool \<Rightarrow> int list
     \<Rightarrow> (int \<times> int \<times> int \<times> int \<times> bool) option" where
  "parse_fields 0 t len pos has_sep vals = parse_fraction t len pos vals"
| "parse_fields (Suc k) t len pos has_sep vals =
     (case take_digits 2 (drop pos t) of
        None \<Rightarrow> None
      | Some (v, rest) \<Rightarrow>
          if len \<le> pos + 3 then Some (hms_of (vals @ [v]) 0 (pos + 2 < length t))
          else if (if vals = [] then char_at t (pos + 2) = Some CHR '':'' else has_sep) then
            (if char_at t (pos + 2) = Some CHR '':''
             then parse_fields k t len (pos + 3) True (vals @ [v])
             else if char_at t (pos + 2) = Some CHR ''.'' \<or> char_at t (pos + 2) = Some CHR '',''
             then parse_fraction t len (pos + 3) (vals @ [v])
             else None)
          else
            (if char_at t (pos + 2) = Some CHR ''.'' \<or> char_at t (pos + 2) = Some CHR '',''
             then parse_fraction t len (pos + 3) (vals @ [v])
             else parse_fields k t len (pos + 2) False (vals @ [v])))"

definition parse_hh_mm_ss_ff ::
  "string \<Rightarrow> nat \<Rightarrow> (int \<times> int \<times> int \<times> int \<times> bool) option" where
  "parse_hh_mm_ss_ff t len = parse_fields 3 t len 0 True []"

text \<open>
  The time part: the time of day up to the first \<^verbatim>\<open>Z\<close>, \<^verbatim>\<open>+\<close> or \<^verbatim>\<open>-\<close>, then the offset in
  microseconds (\<open>None\<close> when there is none), read from the text that starts with that
  character. An offset whose hours, minutes and seconds are all zero is UTC whatever its
  fraction.
\<close>

definition is_tz_char :: "char \<Rightarrow> bool" where
  "is_tz_char c = (c = CHR ''Z'' \<or> c = CHR ''+'' \<or> c = CHR ''-'')"

fun tz_offset :: "string \<Rightarrow> int option option" where
  "tz_offset [] = None"
| "tz_offset (c # z) =
     (if c = CHR ''Z'' then (if z = [] then Some (Some 0) else None)
      else
        (case parse_hh_mm_ss_ff z (length z) of
           None \<Rightarrow> None
         | Some (h, m, s, us, trailing) \<Rightarrow>
             if trailing then None
             else if h * 3600 + m * 60 + s = 0 then Some (Some 0)
             else Some (Some ((if c = CHR ''-'' then - 1 else 1)
                               * ((h * 3600 + m * 60 + s) * 1000000 + us)))))"

text \<open>
  Where the offset starts: at the first \<^verbatim>\<open>Z\<close>, \<^verbatim>\<open>+\<close> or \<^verbatim>\<open>-\<close>, or else at the end (the scan
  looks at the first character before it looks at the length).
\<close>

definition tz_position :: "string \<Rightarrow> nat" where
  "tz_position t =
     (if list_ex is_tz_char t then length (takeWhile (\<lambda>c. \<not> is_tz_char c) t)
      else max 1 (length t))"

definition parse_isoformat_time :: "string \<Rightarrow> (int \<times> int \<times> int \<times> int \<times> int option) option" where
  "parse_isoformat_time t =
     (case parse_hh_mm_ss_ff t (tz_position t) of
        None \<Rightarrow> None
      | Some (h, m, s, us, trailing) \<Rightarrow>
          if length t \<le> tz_position t then (if trailing then None else Some (h, m, s, us, None))
          else
            (case tz_offset (drop (tz_position t) t) of
               None \<Rightarrow> None
             | Some off \<Rightarrow> Some (h, m, s, us, off)))"

text \<open>The number of bytes of the character that starts with the byte \<open>c\<close>.\<close>

definition utf8_width :: "char \<Rightarrow> nat" where
  "utf8_width c =
     (if (of_char c :: nat) < 128 then 1
      else if (of_char c :: nat) div 16 = 14 then 3
      else if (of_char c :: nat) div 16 = 15 then 4
      else 2)"

definition iso_fromisoformat :: "string \<Rightarrow> py_error + pydatetime" where
  "iso_fromisoformat s =
     (if length s < 7 then Inl ValueError
      else
        (case find_isoformat_datetime_separator s of
           None \<Rightarrow> Inl ValueError
         | Some sep \<Rightarrow>
             (case parse_isoformat_date s sep of
                None \<Rightarrow> Inl ValueError
              | Some day \<Rightarrow>
                  (case (if sep < length s
                         then parse_isoformat_time (drop (sep + utf8_width (s ! sep)) s)
                         else Some (0, 0, 0, 0, None)) of
                     None \<Rightarrow> Inl ValueError
                   | Some (h, m, sec, us, off) \<Rightarrow>
                       if h < 24 \<and> m < 60 \<and> sec < 60
                          \<and> (case off of
                                None \<Rightarrow> True
                              | Some x \<Rightarrow> - 86400000000 < x \<and> x < 86400000000)
                       then Inr \<lparr>ticks = ((day - 1) * 86400 + h * 3600 + m * 60 + sec) * 1000000
                                          + us,
                                 utcoffset = off\<rparr>
                       else Inl ValueError))))"

text \<open>
  \<^verbatim>\<open>fnmatch.fnmatch(name, pat)\<close> on a POSIX system, for patterns of literal characters,
  \<^verbatim>\<open>*\<close> and \<^verbatim>\<open>?\<close>.
\<close>

fun glob_match :: "string \<Rightarrow> string \<Rightarrow> bool" where
  "glob_match [] [] = True"
| "glob_match [] (c # cs) = False"
| "glob_match (p # ps) [] = (p = CHR ''*'' \<and> glob_match ps [])"
| "glob_match (p # ps) (c # cs) =
     (if p = CHR ''*'' then glob_match ps (c # cs) \<or> glob_match (p # ps) cs
      else (p = CHR ''?'' \<or> p = c) \<and> glob_match ps cs)"

text \<open>A working medium at clock reading \<open>t\<close>.\<close>

definition posix_env :: "int \<Rightarrow> env" where
  "posix_env t =
     \<lparr>fromisoformat = iso_fromisoformat, fnmatch = (\<lambda>name pat. glob_match pat name), now = t,
      can_read = (\<lambda>p. True), write_result = (\<lambda>p. Written), can_unlink = (\<lambda>p. True)\<rparr>"

section \<open>Concrete entries and stores\<close>

text \<open>
  The entries the closed theorems below run the store on. \<open>noon\<close> is the reading of the
  clock at 2025-07-30T12:00:00. \<open>session_entry\<close> is an entry as \<^verbatim>\<open>create_context\<close> builds it, for
  session \<^verbatim>\<open>S1\<close>, with a given id, timestamp and \<^verbatim>\<open>ttl\<close>; \<open>session_store rows\<close> is the store
  with one file and one index line per row.
\<close>

definition noon :: int where
  "noon = 63889473600000000"

definition session_entry :: "string \<Rightarrow> string \<Rightarrow> int option \<Rightarrow> MemoryEntry" where
  "session_entry eid ts life =
     \<lparr>entry_id = eid, timestamp = ts,
      source = \<lparr>src_type = Member CHAT, src_id = ''claude-001'', src_session = Some ''S1''\<rparr>,
      level = Member IMMEDIATE,
      data = \<lparr>meta_tags = Some [''CONTEXT''], other_keys = [(''type'', JStr ''context'')]\<rparr>,
      ttl = life, visibility = ''private''\<rparr>"

definition session_indices :: "string list \<Rightarrow> (string \<times> index_dict written) list" where
  "session_indices ids =
     [(''sessions'', Whole [(''S1'', ids)]), (''tags'', Whole [(''CONTEXT'', ids)]),
      (''sources'', Whole [(''chat:claude-001'', ids)])]"

definition session_file :: "string \<Rightarrow> string \<Rightarrow> int option \<Rightarrow> entry_file" where
  "session_file eid ts life =
     \<lparr>mtime = noon, content = Whole (to_dict ''immediate'' ''chat'' (session_entry eid ts life))\<rparr>"

definition session_store :: "(string \<times> string \<times> int option) list \<Rightarrow> store" where
  "session_store rows =
     \<lparr>files = map (\<lambda>(eid, ts, life). ((IMMEDIATE, eid), session_file eid ts life)) rows,
      indices = session_indices (map fst rows)\<rparr>"



text \<open>
  An entry as \<^verbatim>\<open>create_handoff\<close> builds it: \<^verbatim>\<open>asdict(from_source)\<close> leaves the enum member
  \<^verbatim>\<open>SourceType.CHAT\<close> in the payload.
\<close>

definition entry_handoff :: MemoryEntry where
  "entry_handoff =
     \<lparr>entry_id = ''f1'', timestamp = ''2025-07-30T12:00:00Z'',
      source = \<lparr>src_type = Member CHAT, src_id = ''claude-001'', src_session = Some ''S1''\<rparr>,
      level = Member IMMEDIATE,
      data = \<lparr>meta_tags = Some [''HANDOFF'', ''FROM_chat''],
              other_keys =
                [(''type'', JStr ''handoff''),
                 (''from'', JDict [(''type'', JObject ''SourceType.CHAT''),
                                   (''id'', JStr ''claude-001''), (''session'', JStr ''S1'')]),
                 (''to'', JDict [(''type'', JStr ''agent'')]),
                 (''context'', JDict []), (''instructions'', JStr ''continue'')]\<rparr>,
      ttl = Some 3600, visibility = ''private''\<rparr>"

text \<open>
  An entry whose source type is a member of another enum, with the value \<^verbatim>\<open>'email'\<close>.
\<close>

definition entry_other_enum :: MemoryEntry where
  "entry_other_enum =
     \<lparr>entry_id = ''v1'', timestamp = ''2025-07-30T12:00:00Z'',
      source = \<lparr>src_type = Valued ''email'', src_id = ''mailer'', src_session = Some ''S1''\<rparr>,
      level = Member WORKING, data = \<lparr>meta_tags = None, other_keys = []\<rparr>, ttl = None,
      visibility = ''private''\<rparr>"

text \<open>
  A medium on which one file cannot be read, and one on which the writing of one file
  fails after the file was opened.
\<close>

definition env_cut :: "path \<Rightarrow> env" where
  "env_cut f = (posix_env noon)\<lparr>write_result := (\<lambda>p. if p = f then Cut else Written)\<rparr>"

definition env_unreadable :: "path \<Rightarrow> env" where
  "env_unreadable f = (posix_env noon)\<lparr>can_read := (\<lambda>p. p \<noteq> f)\<rparr>"

section \<open>Writing and reading back\<close>

lemma SourceType_call_value [simp]: "SourceType_call (SourceType_value t) = Inr t"
  by (cases t) (simp_all add: SourceType_call_def)

lemma MemoryLevel_call_value [simp]: "MemoryLevel_call (MemoryLevel_value lv) = Inr lv"
  by (cases lv) (simp_all add: MemoryLevel_call_def)

lemma of_dict_to_dict:
  "level e = Member lv \<Longrightarrow> src_type (source e) = Member t \<Longrightarrow>
   of_dict (to_dict (MemoryLevel_value lv) (SourceType_value t) e) = Inr e"
  by (simp add: of_dict_def to_dict_def)

lemma healthyD: "healthy E \<Longrightarrow> can_read E p \<and> write_result E p = Written \<and> can_unlink E p"
  by (simp add: healthy_def)

lemma healthy_posix_env [simp]: "healthy (posix_env t)"
  by (simp add: healthy_def posix_env_def)

lemma entry_path_Member [simp]: "entry_path (Member lv) eid = Inr (get_file_path lv eid)"
  by (simp add: entry_path_def)

text \<open>The index updates never touch the entry files.\<close>

lemma files_save_index: "files (snd (save_index E t ix st)) = files st"
  by (simp add: save_index_def split: write_outcome.splits)

lemma files_update_session_index: "files (snd (update_session_index E e a st)) = files st"
  by (simp add: update_session_index_def files_save_index split: sum.splits)

lemma files_update_tag_index: "files (snd (update_tag_index E e a st)) = files st"
  by (simp add: update_tag_index_def files_save_index split: sum.splits)

lemma files_update_source_index: "files (snd (update_source_index E e a st)) = files st"
  by (simp add: update_source_index_def files_save_index split: sum.splits)

lemma files_update_indices: "files (snd (update_indices E e a st)) = files st"
proof -
  obtain r1 st1 where s1: "update_session_index E e a st = (r1, st1)"
    by (cases "update_session_index E e a st")
  obtain r2 st2 where s2: "update_tag_index E e a st1 = (r2, st2)"
    by (cases "update_tag_index E e a st1")
  have f1: "files st1 = files st"
    using files_update_session_index [of E e a st] by (simp add: s1)
  have f2: "files st2 = files st1"
    using files_update_tag_index [of E e a st1] by (simp add: s2)
  show ?thesis
    using files_update_source_index [of E e a st2]
    by (simp add: update_indices_def s1 s2 f1 f2 split: option.splits)
qed

text \<open>
  A store is intact when none of its three index files is cut off. On a working medium,
  adding an entry to the indices of an intact store raises nothing and leaves the store
  intact.
\<close>

lemma update_tags_add: "\<exists>ix'. update_tags ''add'' eid tags ix = Inr ix'"
  by (induction tags arbitrary: ix) (simp_all add: index_apply_def)

lemma load_index_whole:
  "healthy E \<Longrightarrow> index_whole st t \<Longrightarrow> \<exists>ix. load_index E st t = Inr ix"
  by (auto simp: load_index_def index_whole_def healthyD split: option.splits written.splits)

lemma index_whole_save_index:
  "healthy E \<Longrightarrow> index_whole (snd (save_index E t ix st)) t' = (t' = t \<or> index_whole st t')"
  by (auto simp: save_index_def index_whole_def healthyD update_conv)

lemma save_index_healthy: "healthy E \<Longrightarrow> fst (save_index E t ix st) = None"
  by (simp add: save_index_def healthyD)

lemma update_session_index_add_healthy:
  assumes "healthy E" and "index_whole st ''sessions''"
  shows "fst (update_session_index E e ''add'' st) = None \<and>
         (index_whole st t \<longrightarrow> index_whole (snd (update_session_index E e ''add'' st)) t)"
proof -
  obtain ix where l: "load_index E st ''sessions'' = Inr ix"
    using load_index_whole [OF assms] by blast
  show ?thesis
    by (simp add: update_session_index_def l index_apply_def save_index_healthy [OF assms(1)]
        index_whole_save_index [OF assms(1)] split: option.splits)
qed

lemma update_tag_index_add_healthy:
  assumes "healthy E" and "index_whole st ''tags''"
  shows "fst (update_tag_index E e ''add'' st) = None \<and>
         (index_whole st t \<longrightarrow> index_whole (snd (update_tag_index E e ''add'' st)) t)"
proof -
  obtain ix where l: "load_index E st ''tags'' = Inr ix"
    using load_index_whole [OF assms] by blast
  obtain ix' where u: "update_tags ''add'' (entry_id e)
      (case meta_tags (data e) of None \<Rightarrow> [] | Some tags \<Rightarrow> tags) ix = Inr ix'"
    using update_tags_add by blast
  show ?thesis
    by (simp add: update_tag_index_def l u save_index_healthy [OF assms(1)]
        index_whole_save_index [OF assms(1)])
qed

lemma update_source_index_add_healthy:
  assumes "healthy E" and "index_whole st ''sources''"
    and "enum_value SourceType_value (src_type (source e)) = Inr tv"
  shows "fst (update_source_index E e ''add'' st) = None"
proof -
  obtain ix where l: "load_index E st ''sources'' = Inr ix"
    using load_index_whole [OF assms(1,2)] by blast
  show ?thesis
    by (simp add: update_source_index_def l assms(3) index_apply_def
        save_index_healthy [OF assms(1)])
qed

lemma update_indices_add_healthy:
  assumes "healthy E" and "intact st"
    and "enum_value SourceType_value (src_type (source e)) = Inr tv"
  shows "fst (update_indices E e ''add'' st) = None"
proof -
  obtain st1 where s1: "update_session_index E e ''add'' st = (None, st1)"
    using update_session_index_add_healthy [OF assms(1), of st e] assms(2)
    by (metis intact_def prod.collapse)
  have w1: "index_whole st1 ''tags''" "index_whole st1 ''sources''"
    using update_session_index_add_healthy [OF assms(1), of st e] assms(2) s1
    by (simp_all add: intact_def)
  obtain st2 where s2: "update_tag_index E e ''add'' st1 = (None, st2)"
    using update_tag_index_add_healthy [OF assms(1) w1(1), of e] by (metis prod.collapse)
  have w2: "index_whole st2 ''sources''"
    using update_tag_index_add_healthy [OF assms(1) w1(1), of e "''sources''"] w1(2) s2
    by simp
  show ?thesis
    by (simp add: update_indices_def s1 s2 update_source_index_add_healthy [OF assms(1) w2 assms(3)])
qed

text \<open>
  When the medium writes the file of an entry with an enum member as level, a source type
  that has a value and a payload \<^verbatim>\<open>json\<close> can encode, the entry's document is in its file
  after \<^verbatim>\<open>save_entry\<close>, whatever happens to the indices; on a working medium and an intact
  store \<^verbatim>\<open>save_entry\<close> returns True.
\<close>

lemma save_entry_file:
  assumes "write_result E (get_file_path lv (entry_id e)) = Written" and "level e = Member lv"
    and "enum_value SourceType_value (src_type (source e)) = Inr tv" and "payload_ok (data e)"
  shows "map_of (files (snd (save_entry E st e))) (lv, entry_id e)
           = Some \<lparr>mtime = now E, content = Whole (to_dict (MemoryLevel_value lv) tv e)\<rparr>"
proof -
  let ?st1 = "put_file E (get_file_path lv (entry_id e))
                (Whole (to_dict (MemoryLevel_value lv) tv e)) st"
  have "snd (save_entry E st e) = snd (update_indices E e ''add'' ?st1)"
    using assms by (simp add: save_entry_def split: prod.splits option.splits)
  then have "files (snd (save_entry E st e)) = files ?st1"
    by (simp add: files_update_indices)
  then show ?thesis
    by (simp add: put_file_def get_file_path_def update_conv)
qed

lemma save_entry_healthy:
  assumes "healthy E" and "intact st" and "level e = Member lv"
    and "enum_value SourceType_value (src_type (source e)) = Inr tv" and "payload_ok (data e)"
  shows "fst (save_entry E st e)"
proof -
  let ?st1 = "put_file E (get_file_path lv (entry_id e))
                (Whole (to_dict (MemoryLevel_value lv) tv e)) st"
  have "intact ?st1"
    using assms(2) by (simp add: put_file_def get_file_path_def intact_def index_whole_def)
  then have "fst (update_indices E e ''add'' ?st1) = None"
    by (rule update_indices_add_healthy [OF assms(1) _ assms(4)])
  then obtain st' where "update_indices E e ''add'' ?st1 = (None, st')"
    by (metis prod.collapse)
  then show ?thesis
    using assms by (simp add: save_entry_def healthyD)
qed

lemma load_entry_live:
  assumes "map_of (files st) (lv, eid) = Some f" and "can_read E (get_file_path lv eid)"
    and "read_entry f = Inr e" and "is_expired E e = Inr False"
  shows "load_entry E (Suc depth) st lv eid = Inr (Some e, st)"
  using assms by simp

lemma load_after_save:
  assumes "healthy E" and "level e = Member lv" and "src_type (source e) = Member t"
    and "payload_ok (data e)"
    and "can_read E' (get_file_path lv (entry_id e))" and "is_expired E' e = Inr False"
  shows "load_entry E' (Suc depth) (snd (save_entry E st e)) lv (entry_id e)
           = Inr (Some e, snd (save_entry E st e))"
proof -
  have w: "write_result E (get_file_path lv (entry_id e)) = Written"
    using assms(1) by (simp add: healthyD)
  have v: "enum_value SourceType_value (src_type (source e)) = Inr (SourceType_value t)"
    using assms(3) by simp
  have m: "map_of (files (snd (save_entry E st e))) (lv, entry_id e)
          = Some \<lparr>mtime = now E,
                  content = Whole (to_dict (MemoryLevel_value lv) (SourceType_value t) e)\<rparr>"
    by (rule save_entry_file [OF w assms(2) v assms(4)])
  have o: "read_entry \<lparr>mtime = now E,
             content = Whole (to_dict (MemoryLevel_value lv) (SourceType_value t) e)\<rparr> = Inr e"
    using assms(2,3) by (simp add: read_entry_def of_dict_to_dict)
  show ?thesis
    by (rule load_entry_live [OF m assms(5) o assms(6)])
qed

section \<open>What load and delete return\<close>

lemma load_entry_absent:
  "map_of (files st) (lv, eid) = None \<Longrightarrow> load_entry E (Suc depth) st lv eid = Inr (None, st)"
  by simp

lemma load_entry_raises:
  assumes "map_of (files st) (lv, eid) = Some f" and "read_entry f = Inr e"
    and "is_expired E e = Inl err"
  shows "load_entry E (Suc depth) st lv eid = Inr (None, st)"
  using assms by simp

lemma load_entry_cut_off:
  assumes "map_of (files st) (lv, eid) = Some \<lparr>mtime = m, content = Cut_off\<rparr>"
  shows "load_entry E (Suc depth) st lv eid = Inr (None, st)"
  using assms by (simp add: read_entry_def)

lemma load_entry_unreadable:
  assumes "\<not> can_read E (get_file_path lv eid)"
  shows "load_entry E (Suc depth) st lv eid = Inr (None, st)"
  using assms by (simp split: option.splits)

text \<open>\<^verbatim>\<open>delete_entry\<close> when its \<^verbatim>\<open>load_entry\<close> returned nothing, and when it returned the entry.\<close>

lemma delete_entry_not_loaded:
  assumes "load_entry E depth st lv eid = Inr (None, st)"
  shows "delete_entry E (Suc depth) st lv eid =
           Inr (case map_of (files st) (lv, eid) of
                  None \<Rightarrow> (True, st)
                | Some f \<Rightarrow>
                    if can_unlink E (get_file_path lv eid)
                    then (True, st\<lparr>files := AList.delete (lv, eid) (files st)\<rparr>)
                    else (False, st))"
  using assms by simp

lemma delete_entry_loaded:
  assumes "load_entry E depth st lv eid = Inr (Some e, st)"
    and "update_indices E e ''remove'' st = (None, st2)"
    and "map_of (files st) (lv, eid) = Some f" and "can_unlink E (get_file_path lv eid)"
  shows "delete_entry E (Suc depth) st lv eid =
           Inr (True, st2\<lparr>files := AList.delete (lv, eid) (files st)\<rparr>)"
proof -
  have "files st2 = files st"
    using files_update_indices [of E e "''remove''" st] by (simp add: assms(2))
  then show ?thesis using assms by simp
qed

text \<open>
  An expired entry: \<^verbatim>\<open>load_entry\<close> calls \<^verbatim>\<open>delete_entry\<close>, which calls \<^verbatim>\<open>load_entry\<close>, and so on
  until the interpreter's depth is used up. On the way back one \<^verbatim>\<open>delete_entry\<close> unlinks the
  file; none of them has an entry in hand, so none touches the indices.
\<close>

lemma map_of_delete_same [simp]: "map_of (AList.delete k xs) k = None"
  by (simp add: delete_conv)

lemma expired_steps:
  assumes "map_of (files st) (lv, eid) = Some f" and "can_read E (get_file_path lv eid)"
    and "read_entry f = Inr e" and "is_expired E e = Inr True"
    and "can_unlink E (get_file_path lv eid)"
  shows "(load_entry E (Suc depth) st lv eid = Inr (None, st) \<or>
          load_entry E (Suc depth) st lv eid
            = Inr (None, st\<lparr>files := AList.delete (lv, eid) (files st)\<rparr>)) \<and>
         (delete_entry E (Suc depth) st lv eid = Inr (False, st) \<or>
          delete_entry E (Suc depth) st lv eid
            = Inr (True, st\<lparr>files := AList.delete (lv, eid) (files st)\<rparr>))"
proof (induction depth)
  case 0
  show ?case using assms by simp
next
  case (Suc depth)
  let ?st' = "st\<lparr>files := AList.delete (lv, eid) (files st)\<rparr>"
  have l: "load_entry E (Suc (Suc depth)) st lv eid = Inr (None, st) \<or>
           load_entry E (Suc (Suc depth)) st lv eid = Inr (None, ?st')"
    using Suc.IH assms(1-4) by (auto simp del: delete_entry.simps)
  have d: "delete_entry E (Suc (Suc depth)) st lv eid = Inr (True, ?st')"
    using Suc.IH assms(1,5) by (auto simp del: load_entry.simps)
  show ?case using l d by blast
qed

lemma delete_entry_expired:
  assumes "map_of (files st) (lv, eid) = Some f" and "can_read E (get_file_path lv eid)"
    and "read_entry f = Inr e" and "is_expired E e = Inr True"
    and "can_unlink E (get_file_path lv eid)"
  shows "delete_entry E (Suc (Suc depth)) st lv eid
           = Inr (True, st\<lparr>files := AList.delete (lv, eid) (files st)\<rparr>)"
  using expired_steps [OF assms, of depth] assms(1,5) by (auto simp del: load_entry.simps)

lemma load_entry_expired:
  assumes "map_of (files st) (lv, eid) = Some f" and "can_read E (get_file_path lv eid)"
    and "read_entry f = Inr e" and "is_expired E e = Inr True"
    and "can_unlink E (get_file_path lv eid)"
  shows "load_entry E (Suc (Suc (Suc depth))) st lv eid
           = Inr (None, st\<lparr>files := AList.delete (lv, eid) (files st)\<rparr>)"
  using delete_entry_expired [OF assms, of depth] assms(1-4) by (simp del: delete_entry.simps)

lemma load_entry_expired_any:
  assumes "map_of (files st) (lv, eid) = Some f" and "read_entry f = Inr e" and "is_expired E e = Inr True"
  shows "\<exists>st'. load_entry E (Suc depth) st lv eid = Inr (None, st')"
  using assms by (auto simp del: delete_entry.simps split: sum.splits)

section \<open>Expiry of a stored entry\<close>

lemma is_expired_naive:
  assumes "ttl e = Some s" and "s \<noteq> 0"
    and "fromisoformat E (replace_Z (timestamp e)) = Inr created" and "utcoffset created = None"
    and "- 999999999 \<le> s div 86400" and "s div 86400 \<le> 999999999"
    and "0 \<le> ticks created + s * 1000000" and "ticks created + s * 1000000 \<le> max_ticks"
  shows "is_expired E e = Inr (ticks created + s * 1000000 < now E)"
  using assms by (simp add: is_expired_def timedelta_seconds_def datetime_add_def datetime_gt_def)

lemma is_expired_aware:
  assumes "ttl e = Some s" and "s \<noteq> 0"
    and "fromisoformat E (replace_Z (timestamp e)) = Inr created" and "utcoffset created = Some off"
  shows "\<exists>err. is_expired E e = Inl err"
  using assms by (simp add: is_expired_def timedelta_seconds_def datetime_add_def datetime_gt_def)

section \<open>The order of query results\<close>

lemma sorted_reverse_descending:
  "sorted_wrt (\<lambda>a b. k b \<le> k a) (sorted_reverse k xs)"
proof -
  have "sorted (map k (sort_key k (rev xs)))" by simp
  then have "sorted_wrt (\<lambda>a b. k a \<le> k b) (sort_key k (rev xs))"
    by (simp only: sorted_map)
  then show ?thesis
    by (simp add: sorted_reverse_def sorted_wrt_rev)
qed

section \<open>What load and delete do to the entry files\<close>

lemma load_delete_files:
  "(load_entry E depth st lv eid = Inr (found, st1) \<longrightarrow>
      (found \<noteq> None \<longrightarrow> st1 = st) \<and>
      (files st1 = files st \<or> map_of (files st1) (lv, eid) = None)) \<and>
   (delete_entry E depth st lv eid = Inr (ok, st2) \<longrightarrow>
      (if ok then map_of (files st2) (lv, eid) = None else files st2 = files st))"
proof (induction depth arbitrary: found st1 ok st2)
  case 0
  show ?case by simp
next
  case (Suc depth)
  have dIH: "if ok' then map_of (files st2') (lv, eid) = None else files st2' = files st"
    if "delete_entry E depth st lv eid = Inr (ok', st2')" for ok' st2'
    using Suc.IH that by blast
  have l: "(found \<noteq> None \<longrightarrow> st1 = st) \<and>
           (files st1 = files st \<or> map_of (files st1) (lv, eid) = None)"
    if "load_entry E (Suc depth) st lv eid = Inr (found, st1)"
  proof (cases "delete_entry E depth st lv eid")
    case (Inl err)
    then show ?thesis using that
      by (auto simp del: delete_entry.simps split: option.splits if_splits sum.splits)
  next
    case (Inr r)
    obtain ok' s' where r: "r = (ok', s')" by (cases r)
    have "files s' = files st \<or> map_of (files s') (lv, eid) = None"
      using dIH [of ok' s'] Inr r by (cases ok') simp_all
    then show ?thesis using that Inr r
      by (auto simp del: delete_entry.simps split: option.splits if_splits sum.splits)
  qed
  have d: "if ok then map_of (files st2) (lv, eid) = None else files st2 = files st"
    if "delete_entry E (Suc depth) st lv eid = Inr (ok, st2)"
  proof (cases "load_entry E depth st lv eid")
    case (Inl err)
    then show ?thesis using that by simp
  next
    case (Inr r)
    obtain fnd s1 where r: "r = (fnd, s1)" by (cases r)
    have ih: "(fnd \<noteq> None \<longrightarrow> s1 = st) \<and>
              (files s1 = files st \<or> map_of (files s1) (lv, eid) = None)"
      using Suc.IH [of fnd s1] Inr r by simp
    show ?thesis
    proof (cases fnd)
      case None
      then show ?thesis using that Inr r ih
        by (auto simp del: load_entry.simps split: option.splits if_splits)
    next
      case (Some e)
      then have s1: "s1 = st" using ih by simp
      obtain res s2 where u: "update_indices E e ''remove'' st = (res, s2)"
        by (cases "update_indices E e ''remove'' st")
      have f: "files s2 = files st"
        using files_update_indices [of E e "''remove''" st] by (simp add: u)
      show ?thesis using that Inr r Some s1 u f
        by (auto simp del: load_entry.simps split: option.splits if_splits)
    qed
  qed
  show ?case using l d by blast
qed

section \<open>What the sweep counts, and deleting twice\<close>

text \<open>
  \<^verbatim>\<open>load_entry\<close> hands out an entry only after \<^verbatim>\<open>is_expired\<close> returned False for it, so under
  one clock reading the counter of \<^verbatim>\<open>clean_expired\<close> never moves.
\<close>

lemma load_entry_found:
  assumes "load_entry E depth st lv eid = Inr (Some e, st')"
  shows "is_expired E e = Inr False \<and> st' = st"
proof (cases depth)
  case 0
  then show ?thesis using assms by simp
next
  case (Suc d)
  then show ?thesis using assms
    by (auto simp del: delete_entry.simps split: option.splits if_splits sum.splits)
qed

lemma clean_level_count:
  "clean_level E depth lv ids cleaned st = (Inr n, st') \<Longrightarrow> n = cleaned"
proof (induction ids arbitrary: st)
  case Nil
  then show ?case by simp
next
  case (Cons eid ids)
  show ?case
  proof (cases "load_entry E depth st lv eid")
    case (Inl err)
    then show ?thesis using Cons.prems by simp
  next
    case (Inr r)
    obtain found st1 where r: "r = (found, st1)" by (cases r)
    show ?thesis
    proof (cases found)
      case None
      then show ?thesis using Cons Inr r by simp
    next
      case (Some e)
      then have "is_expired E e = Inr False"
        using load_entry_found Inr r by blast
      then show ?thesis using Cons Inr r Some by simp
    qed
  qed
qed

lemma clean_levels_count:
  "clean_levels E depth lvs cleaned st = (Inr n, st') \<Longrightarrow> n = cleaned"
proof (induction lvs arbitrary: cleaned st)
  case Nil
  then show ?case by simp
next
  case (Cons lv lvs)
  then show ?case
    by (auto split: prod.splits sum.splits dest: clean_level_count)
qed

lemma clean_expired_count: "clean_expired E depth st = (Inr n, st') \<Longrightarrow> n = 0"
  unfolding clean_expired_def by (rule clean_levels_count)

text \<open>Deleting what is not there changes nothing, and so does deleting a second time.\<close>

lemma delete_entry_absent:
  assumes "map_of (files st) (lv, eid) = None"
  shows "delete_entry E (Suc (Suc depth)) st lv eid = Inr (True, st)"
  using assms by simp

lemma delete_entry_twice:
  assumes "delete_entry E depth st lv eid = Inr (True, st')"
  shows "delete_entry E (Suc (Suc depth')) st' lv eid = Inr (True, st')"
proof -
  have "map_of (files st') (lv, eid) = None"
    using load_delete_files [of E depth st lv eid None st True st'] assms by simp
  then show ?thesis by (rule delete_entry_absent)
qed

section \<open>Running the store on the concrete entries\<close>

lemma can_posix_env [simp]:
  "can_read (posix_env t) p" "write_result (posix_env t) p = Written" "can_unlink (posix_env t) p"
  by (simp_all add: posix_env_def)

lemma session_entry_fields [simp]:
  "entry_id (session_entry eid ts life) = eid"
  "timestamp (session_entry eid ts life) = ts"
  "ttl (session_entry eid ts life) = life"
  "level (session_entry eid ts life) = Member IMMEDIATE"
  "src_type (source (session_entry eid ts life)) = Member CHAT"
  by (simp_all add: session_entry_def)

lemma session_entry_payload [simp]: "payload_ok (data (session_entry eid ts life))"
  by (simp add: session_entry_def payload_ok_def)

lemma intact_empty_store [simp]: "intact empty_store"
  by (simp add: intact_def index_whole_def empty_store_def)

lemma read_session_file: "read_entry (session_file eid ts life) = Inr (session_entry eid ts life)"
  using of_dict_to_dict [of "session_entry eid ts life" IMMEDIATE CHAT]
  by (simp add: read_entry_def session_file_def)

lemma file_of_session_store:
  "map_of (files (session_store [(eid, ts, life)])) (IMMEDIATE, eid)
     = Some (session_file eid ts life)"
  by (simp add: session_store_def)

lemma depth_1000: "(1000::nat) = Suc (Suc (Suc 997))"
  by simp

text \<open>A stored session entry that is not expired is loaded, at the depth of a fresh interpreter.\<close>

lemma load_session_entry:
  assumes "map_of (files st) (IMMEDIATE, eid) = Some (session_file eid ts life)"
    and "can_read E (get_file_path IMMEDIATE eid)"
    and "is_expired E (session_entry eid ts life) = Inr False"
  shows "load_entry E 1000 st IMMEDIATE eid = Inr (Some (session_entry eid ts life), st)"
  unfolding depth_1000
  by (rule load_entry_live [OF assms(1,2) read_session_file assms(3)])

lemma load_session_entry_expired:
  assumes "map_of (files st) (IMMEDIATE, eid) = Some (session_file eid ts life)"
    and "can_read E (get_file_path IMMEDIATE eid)"
    and "is_expired E (session_entry eid ts life) = Inr True"
    and "can_unlink E (get_file_path IMMEDIATE eid)"
  shows "load_entry E 1000 st IMMEDIATE eid
           = Inr (None, st\<lparr>files := AList.delete (IMMEDIATE, eid) (files st)\<rparr>)"
  unfolding depth_1000
  by (rule load_entry_expired [OF assms(1,2) read_session_file assms(3,4)])

lemma load_session_entry_raises:
  assumes "map_of (files st) (IMMEDIATE, eid) = Some (session_file eid ts life)"
    and "is_expired E (session_entry eid ts life) = Inl err"
  shows "load_entry E 1000 st IMMEDIATE eid = Inr (None, st)"
  unfolding depth_1000
  by (rule load_entry_raises [OF assms(1) read_session_file assms(2)])

section \<open>The claims\<close>

subsection \<open>Steps of the store on the concrete entries\<close>

lemma iso_noon:
  "iso_fromisoformat (replace_Z ''2025-07-30T12:00:00'') = Inr \<lparr>ticks = noon, utcoffset = None\<rparr>"
  by code_simp

lemma iso_noon_Z:
  "iso_fromisoformat (replace_Z ''2025-07-30T12:00:00Z'')
     = Inr \<lparr>ticks = noon, utcoffset = Some 0\<rparr>"
  by code_simp

lemma iso_half_past_noon_Z:
  "iso_fromisoformat (replace_Z ''2025-07-30T12:00:00.500000Z'')
     = Inr \<lparr>ticks = noon + 500000, utcoffset = Some 0\<rparr>"
  by code_simp

text \<open>Other strings \<^verbatim>\<open>datetime.fromisoformat\<close> reads, and two it rejects.\<close>

lemma iso_space_and_short_fraction:
  "iso_fromisoformat ''2025-07-30 12:00:00.123''
     = Inr \<lparr>ticks = noon + 123000, utcoffset = None\<rparr>"
  by code_simp

lemma iso_week_date:
  "iso_fromisoformat ''2025-W31-3T12:00'' = Inr \<lparr>ticks = noon, utcoffset = None\<rparr>"
  by code_simp

lemma iso_basic_format:
  "iso_fromisoformat ''20250730T120000,5-05:30''
     = Inr \<lparr>ticks = noon + 500000, utcoffset = Some (- 19800000000)\<rparr>"
  by code_simp

lemma iso_rejected:
  "iso_fromisoformat ''2025-07-30T12:00:00+24:00'' = Inl ValueError"
  "iso_fromisoformat ''2025-07-30T12:00:00.'' = Inl ValueError"
  by code_simp+

lemma save_c1:
  "save_entry (posix_env noon) empty_store (session_entry ''c1'' ''2025-07-30T12:00:00'' (Some 10))
     = (True, session_store [(''c1'', ''2025-07-30T12:00:00'', Some 10)])"
  by code_simp

lemma file_c1:
  "map_of (files (session_store [(''c1'', ''2025-07-30T12:00:00'', Some 10)])) (IMMEDIATE, ''c1'')
     = Some (session_file ''c1'' ''2025-07-30T12:00:00'' (Some 10))"
  by (rule file_of_session_store)

lemma c1_expired:
  "is_expired (posix_env (noon + 10000001)) (session_entry ''c1'' ''2025-07-30T12:00:00'' (Some 10))
     = Inr True"
  by code_simp

lemma c1_at_boundary:
  "is_expired (posix_env (noon + 10 * 1000000))
     (session_entry ''c1'' ''2025-07-30T12:00:00'' (Some 10)) = Inr False"
  by code_simp

lemma c1_gone:
  "(session_store [(''c1'', ''2025-07-30T12:00:00'', Some 10)])
     \<lparr>files := AList.delete (IMMEDIATE, ''c1'')
                 (files (session_store [(''c1'', ''2025-07-30T12:00:00'', Some 10)]))\<rparr>
     = \<lparr>files = [], indices = session_indices [''c1'']\<rparr>"
  by (simp add: session_store_def)

lemma load_c1_expired:
  "load_entry (posix_env (noon + 10000001)) 1000
     (session_store [(''c1'', ''2025-07-30T12:00:00'', Some 10)]) IMMEDIATE ''c1''
     = Inr (None, \<lparr>files = [], indices = session_indices [''c1'']\<rparr>)"
  using load_session_entry_expired [OF file_c1 _ c1_expired] by (simp add: c1_gone)

lemma save_q1:
  "save_entry (posix_env noon) empty_store (session_entry ''q1'' ''2025-07-30T12:00:00Z'' None)
     = (True, session_store [(''q1'', ''2025-07-30T12:00:00Z'', None)])"
  by code_simp

lemma save_q1_again:
  "save_entry (posix_env noon) (session_store [(''q1'', ''2025-07-30T12:00:00Z'', None)])
     (session_entry ''q1'' ''2025-07-30T12:00:00Z'' None)
     = (True, \<lparr>files = files (session_store [(''q1'', ''2025-07-30T12:00:00Z'', None)]),
               indices = session_indices [''q1'', ''q1'']\<rparr>)"
  by code_simp

lemma not_expired_without_ttl [simp]: "is_expired E (session_entry eid ts None) = Inr False"
  by (simp add: is_expired_def)

lemma unindex_q1_once:
  "update_indices (posix_env noon) (session_entry ''q1'' ''2025-07-30T12:00:00Z'' None) ''remove''
     \<lparr>files = files (session_store [(''q1'', ''2025-07-30T12:00:00Z'', None)]),
      indices = session_indices [''q1'', ''q1'']\<rparr>
     = (None, \<lparr>files = files (session_store [(''q1'', ''2025-07-30T12:00:00Z'', None)]),
               indices = session_indices [''q1'']\<rparr>)"
  by code_simp

lemma file_q1:
  "map_of (files (session_store [(''q1'', ''2025-07-30T12:00:00Z'', None)])) (IMMEDIATE, ''q1'')
     = Some (session_file ''q1'' ''2025-07-30T12:00:00Z'' None)"
  by (rule file_of_session_store)

lemma q1_gone:
  "AList.delete (IMMEDIATE, ''q1'') (files (session_store [(''q1'', ''2025-07-30T12:00:00Z'', None)]))
     = []"
  by (simp add: session_store_def)

lemma depth_1000': "(1000::nat) = Suc (Suc 998)"
  by simp

subsection \<open>Index consistency\<close>

text \<open>
  C1 (the code breaks the claim). The claim: after any sequence of \<^verbatim>\<open>save_entry\<close>,
  \<^verbatim>\<open>delete_entry\<close> and expiring \<^verbatim>\<open>load_entry\<close>, every id in an index belongs to a live
  entry, and no id of an expired entry stays in an index. The code: an entry with a
  \<^verbatim>\<open>ttl\<close> of 10 seconds is saved at noon and read back just after it expired;
  \<^verbatim>\<open>load_entry\<close> returns nothing, the file is gone, and all three indices still list the id.
\<close>

theorem expired_entry_stays_indexed:
  "save_entry (posix_env noon) empty_store (session_entry ''c1'' ''2025-07-30T12:00:00'' (Some 10))
     = (True, session_store [(''c1'', ''2025-07-30T12:00:00'', Some 10)]) \<and>
   load_entry (posix_env (noon + 10000001)) 1000
     (session_store [(''c1'', ''2025-07-30T12:00:00'', Some 10)]) IMMEDIATE ''c1''
     = Inr (None, \<lparr>files = [], indices = session_indices [''c1'']\<rparr>) \<and>
   map_of (session_indices [''c1'']) ''sessions'' = Some (Whole [(''S1'', [''c1''])]) \<and>
   map_of (session_indices [''c1'']) ''tags'' = Some (Whole [(''CONTEXT'', [''c1''])]) \<and>
   map_of (session_indices [''c1'']) ''sources'' = Some (Whole [(''chat:claude-001'', [''c1''])])"
  using save_c1 load_c1_expired by (simp add: session_indices_def)

text \<open>
  C3 (the code breaks the claim). The claim: saving the same entry a second time leaves
  every index as the first save left it, the id once per key. The code: the second
  \<^verbatim>\<open>save_entry\<close> appends the id again, to each of the three lists.
\<close>

theorem save_twice_indexes_twice:
  "save_entry (posix_env noon) empty_store (session_entry ''q1'' ''2025-07-30T12:00:00Z'' None)
     = (True, session_store [(''q1'', ''2025-07-30T12:00:00Z'', None)]) \<and>
   indices (session_store [(''q1'', ''2025-07-30T12:00:00Z'', None)]) = session_indices [''q1''] \<and>
   save_entry (posix_env noon) (session_store [(''q1'', ''2025-07-30T12:00:00Z'', None)])
     (session_entry ''q1'' ''2025-07-30T12:00:00Z'' None)
     = (True, \<lparr>files = files (session_store [(''q1'', ''2025-07-30T12:00:00Z'', None)]),
               indices = session_indices [''q1'', ''q1'']\<rparr>) \<and>
   map_of (session_indices [''q1'', ''q1'']) ''sessions'' = Some (Whole [(''S1'', [''q1'', ''q1''])]) \<and>
   map_of (session_indices [''q1'', ''q1'']) ''tags'' = Some (Whole [(''CONTEXT'', [''q1'', ''q1''])]) \<and>
   map_of (session_indices [''q1'', ''q1'']) ''sources''
     = Some (Whole [(''chat:claude-001'', [''q1'', ''q1''])])"
  using save_q1 save_q1_again by (simp add: session_indices_def session_store_def)

subsection \<open>Sweep\<close>

text \<open>
  C4 (the code breaks the claim). The claim: \<^verbatim>\<open>clean_expired\<close> returns the number of expired
  entries the sweep removed. The code: the store holds one entry, expired; the sweep
  removes its file and returns 0, because \<^verbatim>\<open>load_entry\<close> has already dropped the entry when
  \<^verbatim>\<open>clean_expired\<close> asks whether it is expired.
\<close>

theorem clean_expired_returns_zero:
  "clean_expired (posix_env (noon + 10000001)) 1000
     (session_store [(''c1'', ''2025-07-30T12:00:00'', Some 10)])
     = (Inr 0, \<lparr>files = [], indices = session_indices [''c1'']\<rparr>)"
proof -
  have l: "map fst (level_files (session_store [(''c1'', ''2025-07-30T12:00:00'', Some 10)])
             IMMEDIATE) = [''c1'']"
    by (simp add: level_files_def session_store_def)
  have e: "level_files \<lparr>files = [], indices = session_indices [''c1'']\<rparr> lv = []" for lv
    by (simp add: level_files_def)
  show ?thesis
    by (simp add: clean_expired_def all_levels_def l e load_c1_expired
        del: load_entry.simps delete_entry.simps)
qed

subsection \<open>Delete\<close>

text \<open>
  C5 (the code breaks the claim). The claim: \<^verbatim>\<open>delete_entry\<close> removes the record and its id
  from every index line that lists it, and a second call changes nothing. The code: after
  the entry was saved twice, \<^verbatim>\<open>delete_entry\<close> returns True and the file is gone, but
  \<^verbatim>\<open>list.remove\<close> took out one of the two occurrences: every index still lists the id. The
  second call returns True and changes nothing.
\<close>

theorem delete_leaves_duplicate_id:
  "delete_entry (posix_env noon) 1000
     \<lparr>files = files (session_store [(''q1'', ''2025-07-30T12:00:00Z'', None)]),
      indices = session_indices [''q1'', ''q1'']\<rparr> IMMEDIATE ''q1''
     = Inr (True, \<lparr>files = [], indices = session_indices [''q1'']\<rparr>) \<and>
   map_of (session_indices [''q1'']) ''sessions'' = Some (Whole [(''S1'', [''q1''])]) \<and>
   map_of (session_indices [''q1'']) ''tags'' = Some (Whole [(''CONTEXT'', [''q1''])]) \<and>
   map_of (session_indices [''q1'']) ''sources'' = Some (Whole [(''chat:claude-001'', [''q1''])]) \<and>
   delete_entry (posix_env noon) 1000 \<lparr>files = [], indices = session_indices [''q1'']\<rparr>
     IMMEDIATE ''q1''
     = Inr (True, \<lparr>files = [], indices = session_indices [''q1'']\<rparr>)"
proof -
  let ?twice = "\<lparr>files = files (session_store [(''q1'', ''2025-07-30T12:00:00Z'', None)]),
                 indices = session_indices [''q1'', ''q1'']\<rparr>"
  let ?left = "\<lparr>files = [], indices = session_indices [''q1'']\<rparr>"
  have m: "map_of (files ?twice) (IMMEDIATE, ''q1'')
             = Some (session_file ''q1'' ''2025-07-30T12:00:00Z'' None)"
    by (simp add: file_q1)
  have l: "load_entry (posix_env noon) (Suc 998) ?twice IMMEDIATE ''q1''
             = Inr (Some (session_entry ''q1'' ''2025-07-30T12:00:00Z'' None), ?twice)"
    by (rule load_entry_live [OF m _ read_session_file]) simp_all
  have "delete_entry (posix_env noon) (Suc (Suc 998)) ?twice IMMEDIATE ''q1''
          = Inr (True, \<lparr>files = files (session_store [(''q1'', ''2025-07-30T12:00:00Z'', None)]),
                        indices = session_indices [''q1'']\<rparr>
                         \<lparr>files := AList.delete (IMMEDIATE, ''q1'') (files ?twice)\<rparr>)"
    by (rule delete_entry_loaded [OF l unindex_q1_once m]) simp
  then have first: "delete_entry (posix_env noon) 1000 ?twice IMMEDIATE ''q1'' = Inr (True, ?left)"
    by (simp only: depth_1000' [symmetric]) (simp add: q1_gone)
  have "load_entry (posix_env noon) (Suc 998) ?left IMMEDIATE ''q1'' = Inr (None, ?left)"
    by (rule load_entry_absent) simp
  then have "delete_entry (posix_env noon) (Suc (Suc 998)) ?left IMMEDIATE ''q1''
               = Inr (True, ?left)"
    by (simp only: delete_entry_not_loaded) simp
  then have second: "delete_entry (posix_env noon) 1000 ?left IMMEDIATE ''q1'' = Inr (True, ?left)"
    by (simp only: depth_1000' [symmetric])
  show ?thesis using first second by (simp add: session_indices_def)
qed

subsection \<open>Expiry\<close>

text \<open>
  C10. An entry whose \<^verbatim>\<open>ttl\<close> is 0 is never expired: \<^verbatim>\<open>is_expired\<close> returns False under every
  clock and every \<^verbatim>\<open>fromisoformat\<close>, exactly as for an entry without \<^verbatim>\<open>ttl\<close>, and once the
  entry is saved (on a working medium, with enum members in \<^verbatim>\<open>level\<close> and \<^verbatim>\<open>source.type\<close>
  and a payload \<^verbatim>\<open>json\<close> can encode) \<^verbatim>\<open>load_entry\<close> returns it at every later clock reading
  at which its file can be read. \<^verbatim>\<open>save_entry\<close> returns True when, besides, the index files
  of the store are whole.
\<close>

theorem ttl_zero_never_expires:
  assumes "ttl e = Some 0" and "level e = Member lv" and "src_type (source e) = Member t"
    and "healthy E" and "can_read E' (get_file_path lv (entry_id e))"
  shows "is_expired E' e = Inr False \<and>
         is_expired E' e = is_expired E' (e\<lparr>ttl := None\<rparr>) \<and>
         (payload_ok (data e) \<and> intact st \<longrightarrow> fst (save_entry E st e)) \<and>
         (payload_ok (data e) \<longrightarrow>
            load_entry E' (Suc depth) (snd (save_entry E st e)) lv (entry_id e)
              = Inr (Some e, snd (save_entry E st e)))"
proof -
  have x: "is_expired E' e = Inr False"
    using assms(1) by (simp add: is_expired_def)
  have y: "is_expired E' (e\<lparr>ttl := None\<rparr>) = Inr False"
    by (simp add: is_expired_def)
  have v: "enum_value SourceType_value (src_type (source e)) = Inr (SourceType_value t)"
    using assms(3) by simp
  have z: "fst (save_entry E st e)" if "payload_ok (data e) \<and> intact st"
    using that by (intro save_entry_healthy [OF assms(4) _ assms(2) v]) simp_all
  have l: "load_entry E' (Suc depth) (snd (save_entry E st e)) lv (entry_id e)
             = Inr (Some e, snd (save_entry E st e))" if "payload_ok (data e)"
    by (rule load_after_save [OF assms(4,2,3) that assms(5) x])
  show ?thesis
    using x y z l by simp
qed

theorem ttl_zero_never_expires_witness:
  "ttl (session_entry ''n1'' ''2025-07-30T12:00:00Z'' (Some 0)) = Some 0 \<and>
   level (session_entry ''n1'' ''2025-07-30T12:00:00Z'' (Some 0)) = Member IMMEDIATE \<and>
   src_type (source (session_entry ''n1'' ''2025-07-30T12:00:00Z'' (Some 0))) = Member CHAT \<and>
   payload_ok (data (session_entry ''n1'' ''2025-07-30T12:00:00Z'' (Some 0))) \<and>
   healthy (posix_env noon) \<and> intact empty_store \<and>
   can_read (posix_env (noon + 99999999999999999))
     (get_file_path IMMEDIATE (entry_id (session_entry ''n1'' ''2025-07-30T12:00:00Z'' (Some 0)))) \<and>
   is_expired (posix_env (noon + 99999999999999999))
     (session_entry ''n1'' ''2025-07-30T12:00:00Z'' (Some 0)) = Inr False \<and>
   fst (save_entry (posix_env noon) empty_store
          (session_entry ''n1'' ''2025-07-30T12:00:00Z'' (Some 0))) \<and>
   load_entry (posix_env (noon + 99999999999999999)) (Suc 999)
     (snd (save_entry (posix_env noon) empty_store
             (session_entry ''n1'' ''2025-07-30T12:00:00Z'' (Some 0))))
     IMMEDIATE (entry_id (session_entry ''n1'' ''2025-07-30T12:00:00Z'' (Some 0)))
     = Inr (Some (session_entry ''n1'' ''2025-07-30T12:00:00Z'' (Some 0)),
            snd (save_entry (posix_env noon) empty_store
                   (session_entry ''n1'' ''2025-07-30T12:00:00Z'' (Some 0))))"
proof -
  let ?e = "session_entry ''n1'' ''2025-07-30T12:00:00Z'' (Some 0)"
  have h1: "ttl ?e = Some 0" by simp
  have h2: "level ?e = Member IMMEDIATE" by simp
  have h3: "src_type (source ?e) = Member CHAT" by simp
  have h4: "payload_ok (data ?e)" by simp
  have h5: "healthy (posix_env noon)" by simp
  have h6: "intact empty_store" by simp
  have h7: "can_read (posix_env (noon + 99999999999999999))
              (get_file_path IMMEDIATE (entry_id ?e))" by simp
  show ?thesis
    using ttl_zero_never_expires [OF h1 h2 h3 h5 h7, where st = empty_store and depth = 999]
      h1 h2 h3 h4 h5 h6 h7
    by blast
qed

text \<open>
  C2 (amended). For every entry saved on a working medium, with enum members in \<^verbatim>\<open>level\<close>
  and \<^verbatim>\<open>source.type\<close> and a payload \<^verbatim>\<open>json\<close> can encode, and read back while its file can
  be read: an entry whose \<^verbatim>\<open>ttl\<close> is absent (or 0) is returned by \<^verbatim>\<open>load_entry\<close> whatever
  the clock and whatever its timestamp; an entry with a \<^verbatim>\<open>ttl\<close> of \<open>s\<close> seconds, \<open>s\<close> not 0,
  whose timestamp parses to a naive datetime \<open>created\<close> (and \<open>created + s\<close> is a datetime) is
  returned as long as \<^verbatim>\<open>now <= created + s\<close>, the boundary included, and \<^verbatim>\<open>load_entry\<close>
  returns nothing once \<^verbatim>\<open>now > created + s\<close>.
\<close>

theorem ttl_expiry:
  assumes "healthy E" and "level e = Member lv" and "src_type (source e) = Member t"
    and "payload_ok (data e)" and "can_read E' (get_file_path lv (entry_id e))"
  shows "(ttl e = None \<or> ttl e = Some 0 \<longrightarrow>
            load_entry E' (Suc depth) (snd (save_entry E st e)) lv (entry_id e)
              = Inr (Some e, snd (save_entry E st e))) \<and>
         (ttl e = Some s \<and> s \<noteq> 0 \<and>
          fromisoformat E' (replace_Z (timestamp e)) = Inr created \<and> utcoffset created = None \<and>
          - 999999999 \<le> s div 86400 \<and> s div 86400 \<le> 999999999 \<and>
          0 \<le> ticks created + s * 1000000 \<and> ticks created + s * 1000000 \<le> max_ticks \<longrightarrow>
            (if now E' \<le> ticks created + s * 1000000
             then load_entry E' (Suc depth) (snd (save_entry E st e)) lv (entry_id e)
                    = Inr (Some e, snd (save_entry E st e))
             else \<exists>st'. load_entry E' (Suc depth) (snd (save_entry E st e)) lv (entry_id e)
                    = Inr (None, st')))"
proof -
  have w: "write_result E (get_file_path lv (entry_id e)) = Written"
    using assms(1) by (simp add: healthyD)
  have v: "enum_value SourceType_value (src_type (source e)) = Inr (SourceType_value t)"
    using assms(3) by simp
  have m: "map_of (files (snd (save_entry E st e))) (lv, entry_id e)
             = Some \<lparr>mtime = now E,
                     content = Whole (to_dict (MemoryLevel_value lv) (SourceType_value t) e)\<rparr>"
    by (rule save_entry_file [OF w assms(2) v assms(4)])
  have o: "read_entry \<lparr>mtime = now E,
             content = Whole (to_dict (MemoryLevel_value lv) (SourceType_value t) e)\<rparr> = Inr e"
    using assms(2,3) by (simp add: read_entry_def of_dict_to_dict)
  have never: "load_entry E' (Suc depth) (snd (save_entry E st e)) lv (entry_id e)
                 = Inr (Some e, snd (save_entry E st e))"
    if "ttl e = None \<or> ttl e = Some 0"
  proof -
    have "is_expired E' e = Inr False"
      using that by (auto simp: is_expired_def)
    then show ?thesis by (rule load_after_save [OF assms])
  qed
  have timed: "if now E' \<le> ticks created + s * 1000000
               then load_entry E' (Suc depth) (snd (save_entry E st e)) lv (entry_id e)
                      = Inr (Some e, snd (save_entry E st e))
               else \<exists>st'. load_entry E' (Suc depth) (snd (save_entry E st e)) lv (entry_id e)
                      = Inr (None, st')"
    if h: "ttl e = Some s \<and> s \<noteq> 0 \<and>
           fromisoformat E' (replace_Z (timestamp e)) = Inr created \<and> utcoffset created = None \<and>
           - 999999999 \<le> s div 86400 \<and> s div 86400 \<le> 999999999 \<and>
           0 \<le> ticks created + s * 1000000 \<and> ticks created + s * 1000000 \<le> max_ticks"
  proof -
    have x: "is_expired E' e = Inr (ticks created + s * 1000000 < now E')"
      using h by (intro is_expired_naive) simp_all
    show ?thesis
    proof (cases "now E' \<le> ticks created + s * 1000000")
      case True
      then have "is_expired E' e = Inr False" using x by simp
      then have "load_entry E' (Suc depth) (snd (save_entry E st e)) lv (entry_id e)
                   = Inr (Some e, snd (save_entry E st e))"
        by (rule load_after_save [OF assms])
      then show ?thesis using True by simp
    next
      case False
      then have "is_expired E' e = Inr True" using x by simp
      then have "\<exists>st'. load_entry E' (Suc depth) (snd (save_entry E st e)) lv (entry_id e)
                   = Inr (None, st')"
        by (rule load_entry_expired_any [OF m o])
      then show ?thesis using False by simp
    qed
  qed
  show ?thesis using never timed by blast
qed

text \<open>
  An entry without \<^verbatim>\<open>ttl\<close>, stamped as the API stamps its entries, read back long after;
  and the entry created at noon with a \<^verbatim>\<open>ttl\<close> of 10 seconds, read back a microsecond after
  the ten seconds.
\<close>

theorem ttl_expiry_witness:
  "healthy (posix_env noon) \<and>
   level (session_entry ''z1'' ''2025-07-30T12:00:00Z'' None) = Member IMMEDIATE \<and>
   src_type (source (session_entry ''z1'' ''2025-07-30T12:00:00Z'' None)) = Member CHAT \<and>
   payload_ok (data (session_entry ''z1'' ''2025-07-30T12:00:00Z'' None)) \<and>
   can_read (posix_env (noon + 99999999999999999)) (get_file_path IMMEDIATE ''z1'') \<and>
   ttl (session_entry ''z1'' ''2025-07-30T12:00:00Z'' None) = None \<and>
   load_entry (posix_env (noon + 99999999999999999)) (Suc 999)
     (snd (save_entry (posix_env noon) empty_store
             (session_entry ''z1'' ''2025-07-30T12:00:00Z'' None))) IMMEDIATE ''z1''
     = Inr (Some (session_entry ''z1'' ''2025-07-30T12:00:00Z'' None),
            snd (save_entry (posix_env noon) empty_store
                   (session_entry ''z1'' ''2025-07-30T12:00:00Z'' None))) \<and>
   level (session_entry ''c1'' ''2025-07-30T12:00:00'' (Some 10)) = Member IMMEDIATE \<and>
   src_type (source (session_entry ''c1'' ''2025-07-30T12:00:00'' (Some 10))) = Member CHAT \<and>
   payload_ok (data (session_entry ''c1'' ''2025-07-30T12:00:00'' (Some 10))) \<and>
   can_read (posix_env (noon + 10000001)) (get_file_path IMMEDIATE ''c1'') \<and>
   ttl (session_entry ''c1'' ''2025-07-30T12:00:00'' (Some 10)) = Some 10 \<and>
   fromisoformat (posix_env (noon + 10000001))
     (replace_Z (timestamp (session_entry ''c1'' ''2025-07-30T12:00:00'' (Some 10))))
     = Inr \<lparr>ticks = noon, utcoffset = None\<rparr> \<and>
   (10::int) div 86400 \<le> 999999999 \<and> noon + 10 * 1000000 \<le> max_ticks \<and>
   noon + 10 * 1000000 < now (posix_env (noon + 10000001)) \<and>
   (\<exists>st'. load_entry (posix_env (noon + 10000001)) (Suc 999)
            (snd (save_entry (posix_env noon) empty_store
                    (session_entry ''c1'' ''2025-07-30T12:00:00'' (Some 10)))) IMMEDIATE ''c1''
            = Inr (None, st'))"
proof -
  let ?z = "session_entry ''z1'' ''2025-07-30T12:00:00Z'' None"
  let ?Z' = "posix_env (noon + 99999999999999999)"
  let ?e = "session_entry ''c1'' ''2025-07-30T12:00:00'' (Some 10)"
  let ?E' = "posix_env (noon + 10000001)"
  let ?c = "\<lparr>ticks = noon, utcoffset = None\<rparr>"
  have h1: "healthy (posix_env noon)" by simp
  have z2: "level ?z = Member IMMEDIATE" by simp
  have z3: "src_type (source ?z) = Member CHAT" by simp
  have z4: "payload_ok (data ?z)" by simp
  have z5: "can_read ?Z' (get_file_path IMMEDIATE (entry_id ?z))" by simp
  have z6: "ttl ?z = None" by simp
  have h2: "level ?e = Member IMMEDIATE" by simp
  have h3: "src_type (source ?e) = Member CHAT" by simp
  have h4: "payload_ok (data ?e)" by simp
  have h5: "can_read ?E' (get_file_path IMMEDIATE (entry_id ?e))" by simp
  have h6: "ttl ?e = Some 10" by simp
  have h7: "fromisoformat ?E' (replace_Z (timestamp ?e)) = Inr ?c"
    by (simp add: posix_env_def iso_noon)
  have h8: "utcoffset ?c = None \<and> - 999999999 \<le> (10::int) div 86400
            \<and> (10::int) div 86400 \<le> 999999999"
    by simp
  have h9: "0 \<le> ticks ?c + 10 * 1000000 \<and> ticks ?c + 10 * 1000000 \<le> max_ticks"
    by (simp add: noon_def max_ticks_def)
  have late: "noon + 10 * 1000000 < now ?E'" by (simp add: posix_env_def)
  have a: "load_entry ?Z' (Suc 999) (snd (save_entry (posix_env noon) empty_store ?z))
             IMMEDIATE ''z1'' = Inr (Some ?z, snd (save_entry (posix_env noon) empty_store ?z))"
    using ttl_expiry [OF h1 z2 z3 z4 z5, where st = empty_store and depth = 999,
        THEN conjunct1] z6
    by simp
  have b: "\<exists>st'. load_entry ?E' (Suc 999) (snd (save_entry (posix_env noon) empty_store ?e))
             IMMEDIATE ''c1'' = Inr (None, st')"
    using ttl_expiry [OF h1 h2 h3 h4 h5, where st = empty_store and depth = 999 and s = 10
        and created = ?c, THEN conjunct2] h6 h7 h8 h9 late
    by simp
  show ?thesis
    using h1 z2 z3 z4 z5 z6 a h2 h3 h4 h5 h6 h7 h8 h9 late b by simp
qed

text \<open>
  The claim as it stands says that \<^verbatim>\<open>load_entry\<close> returns nothing at the boundary. The entry
  created at noon with a \<^verbatim>\<open>ttl\<close> of 10 seconds is still returned when the clock reads
  exactly 10 seconds past noon.
\<close>

theorem entry_returned_at_boundary:
  "iso_fromisoformat (replace_Z (timestamp (session_entry ''c1'' ''2025-07-30T12:00:00'' (Some 10))))
     = Inr \<lparr>ticks = noon, utcoffset = None\<rparr> \<and>
   ttl (session_entry ''c1'' ''2025-07-30T12:00:00'' (Some 10)) = Some 10 \<and>
   now (posix_env (noon + 10 * 1000000)) = noon + 10 * 1000000 \<and>
   save_entry (posix_env noon) empty_store (session_entry ''c1'' ''2025-07-30T12:00:00'' (Some 10))
     = (True, session_store [(''c1'', ''2025-07-30T12:00:00'', Some 10)]) \<and>
   load_entry (posix_env (noon + 10 * 1000000)) 1000
     (session_store [(''c1'', ''2025-07-30T12:00:00'', Some 10)]) IMMEDIATE ''c1''
     = Inr (Some (session_entry ''c1'' ''2025-07-30T12:00:00'' (Some 10)),
            session_store [(''c1'', ''2025-07-30T12:00:00'', Some 10)])"
  using iso_noon save_c1 load_session_entry [OF file_c1 _ c1_at_boundary]
  by (simp add: posix_env_def)

text \<open>
  C7 (the code breaks the claim). The claim: \<^verbatim>\<open>save_entry\<close> followed at once by \<^verbatim>\<open>load_entry\<close>
  returns the entry, equal in all fields. The code: for an entry as the API itself builds
  it, with a \<^verbatim>\<open>ttl\<close> and a timestamp the API writes, \<^verbatim>\<open>datetime.utcnow().isoformat() + 'Z'\<close>,
  \<^verbatim>\<open>is_expired\<close> compares the naive \<^verbatim>\<open>datetime.now()\<close> with an aware datetime and raises
  TypeError; \<^verbatim>\<open>load_entry\<close> catches it and returns nothing, a second after the save.
\<close>

theorem saved_entry_with_ttl_not_loaded:
  "save_entry (posix_env noon) empty_store
     (session_entry ''h1'' ''2025-07-30T12:00:00.250000Z'' (Some 86400))
     = (True, session_store [(''h1'', ''2025-07-30T12:00:00.250000Z'', Some 86400)]) \<and>
   is_expired (posix_env (noon + 1000000))
     (session_entry ''h1'' ''2025-07-30T12:00:00.250000Z'' (Some 86400)) = Inl TypeError \<and>
   load_entry (posix_env (noon + 1000000)) 1000
     (session_store [(''h1'', ''2025-07-30T12:00:00.250000Z'', Some 86400)]) IMMEDIATE ''h1''
     = Inr (None, session_store [(''h1'', ''2025-07-30T12:00:00.250000Z'', Some 86400)])"
proof -
  have s: "save_entry (posix_env noon) empty_store
             (session_entry ''h1'' ''2025-07-30T12:00:00.250000Z'' (Some 86400))
             = (True, session_store [(''h1'', ''2025-07-30T12:00:00.250000Z'', Some 86400)])"
    by code_simp
  have x: "is_expired (posix_env (noon + 1000000))
             (session_entry ''h1'' ''2025-07-30T12:00:00.250000Z'' (Some 86400)) = Inl TypeError"
    by code_simp
  have m: "map_of (files (session_store [(''h1'', ''2025-07-30T12:00:00.250000Z'', Some 86400)]))
             (IMMEDIATE, ''h1'')
             = Some (session_file ''h1'' ''2025-07-30T12:00:00.250000Z'' (Some 86400))"
    by (rule file_of_session_store)
  show ?thesis
    using s x load_session_entry_raises [OF m x] by simp
qed

subsection \<open>The order of query results\<close>

lemma save_w1:
  "save_entry (posix_env noon) empty_store (session_entry ''w1'' ''2025-07-30T12:00:00Z'' None)
     = (True, session_store [(''w1'', ''2025-07-30T12:00:00Z'', None)])"
  by code_simp

lemma save_w2:
  "save_entry (posix_env noon) (session_store [(''w1'', ''2025-07-30T12:00:00Z'', None)])
     (session_entry ''w2'' ''2025-07-30T12:00:00.500000Z'' None)
     = (True, session_store [(''w1'', ''2025-07-30T12:00:00Z'', None),
                             (''w2'', ''2025-07-30T12:00:00.500000Z'', None)])"
  by code_simp

lemma sorted_w:
  "sorted_reverse timestamp
     [session_entry ''w1'' ''2025-07-30T12:00:00Z'' None,
      session_entry ''w2'' ''2025-07-30T12:00:00.500000Z'' None]
     = [session_entry ''w1'' ''2025-07-30T12:00:00Z'' None,
        session_entry ''w2'' ''2025-07-30T12:00:00.500000Z'' None]"
  by code_simp

lemma query_w:
  "query (posix_env noon) 1000
     (session_store [(''w1'', ''2025-07-30T12:00:00Z'', None),
                     (''w2'', ''2025-07-30T12:00:00.500000Z'', None)])
     None (Some ''S1'') None None
     = (Inr [session_entry ''w1'' ''2025-07-30T12:00:00Z'' None,
             session_entry ''w2'' ''2025-07-30T12:00:00.500000Z'' None],
        session_store [(''w1'', ''2025-07-30T12:00:00Z'', None),
                       (''w2'', ''2025-07-30T12:00:00.500000Z'', None)])"
proof -
  let ?st = "session_store [(''w1'', ''2025-07-30T12:00:00Z'', None),
                            (''w2'', ''2025-07-30T12:00:00.500000Z'', None)]"
  have i: "load_index (posix_env noon) ?st ''sessions'' = Inr [(''S1'', [''w1'', ''w2''])]"
    by code_simp
  have m1: "map_of (files ?st) (IMMEDIATE, ''w1'') = Some (session_file ''w1'' ''2025-07-30T12:00:00Z'' None)"
    by (simp add: session_store_def)
  have m2: "map_of (files ?st) (IMMEDIATE, ''w2'') = Some (session_file ''w2'' ''2025-07-30T12:00:00.500000Z'' None)"
    by (simp add: session_store_def)
  have l1: "load_entry (posix_env noon) 1000 ?st IMMEDIATE ''w1''
              = Inr (Some (session_entry ''w1'' ''2025-07-30T12:00:00Z'' None), ?st)"
    by (rule load_session_entry [OF m1]) simp_all
  have l2: "load_entry (posix_env noon) 1000 ?st IMMEDIATE ''w2''
              = Inr (Some (session_entry ''w2'' ''2025-07-30T12:00:00.500000Z'' None), ?st)"
    by (rule load_session_entry [OF m2]) simp_all
  have r: "query_by_session (posix_env noon) 1000 ?st ''S1''
             = (Inr [session_entry ''w1'' ''2025-07-30T12:00:00Z'' None,
                     session_entry ''w2'' ''2025-07-30T12:00:00.500000Z'' None], ?st)"
    by (simp add: query_by_session_def i all_levels_def l1 l2
        del: load_entry.simps delete_entry.simps)
  show ?thesis
    by (simp add: query_def r sorted_w del: load_entry.simps delete_entry.simps)
qed

text \<open>
  What the final \<^verbatim>\<open>sorted\<close> of \<^verbatim>\<open>query\<close> does give: the result is in descending order of
  the timestamp strings, compared character by character.
\<close>

lemma query_sorted_by_timestamp_string:
  assumes "query E depth st tags session_id lv since = (Inr results, st')"
  shows "sorted_wrt (\<lambda>a b. timestamp b \<le> timestamp a) results"
proof -
  obtain xs where "results = sorted_reverse timestamp xs"
    using assms by (auto simp: query_def split: prod.splits sum.splits)
  then show ?thesis by (simp add: sorted_reverse_descending)
qed

lemma save_s1:
  "save_entry (posix_env noon) empty_store (session_entry ''s1'' ''2025-07-30T12:00:00Z'' None)
     = (True, session_store [(''s1'', ''2025-07-30T12:00:00Z'', None)])"
  by code_simp

lemma save_s2:
  "save_entry (posix_env noon) (session_store [(''s1'', ''2025-07-30T12:00:00Z'', None)])
     (session_entry ''s2'' ''2025-07-30T12:00:01Z'' None)
     = (True, session_store [(''s1'', ''2025-07-30T12:00:00Z'', None),
                             (''s2'', ''2025-07-30T12:00:01Z'', None)])"
  by code_simp

lemma save_s3:
  "save_entry (posix_env noon)
     (session_store [(''s1'', ''2025-07-30T12:00:00Z'', None),
                     (''s2'', ''2025-07-30T12:00:01Z'', None)])
     (session_entry ''s3'' ''2025-07-30T12:00:02Z'' None)
     = (True, session_store [(''s1'', ''2025-07-30T12:00:00Z'', None),
                             (''s2'', ''2025-07-30T12:00:01Z'', None),
                             (''s3'', ''2025-07-30T12:00:02Z'', None)])"
  by code_simp

lemma sorted_s:
  "sorted_reverse timestamp
     [session_entry ''s1'' ''2025-07-30T12:00:00Z'' None,
      session_entry ''s2'' ''2025-07-30T12:00:01Z'' None,
      session_entry ''s3'' ''2025-07-30T12:00:02Z'' None]
     = [session_entry ''s3'' ''2025-07-30T12:00:02Z'' None,
        session_entry ''s2'' ''2025-07-30T12:00:01Z'' None,
        session_entry ''s1'' ''2025-07-30T12:00:00Z'' None]"
  by code_simp

lemma query_s:
  "query (posix_env noon) 1000
     (session_store [(''s1'', ''2025-07-30T12:00:00Z'', None),
                     (''s2'', ''2025-07-30T12:00:01Z'', None),
                     (''s3'', ''2025-07-30T12:00:02Z'', None)])
     None (Some ''S1'') None None
     = (Inr [session_entry ''s3'' ''2025-07-30T12:00:02Z'' None,
             session_entry ''s2'' ''2025-07-30T12:00:01Z'' None,
             session_entry ''s1'' ''2025-07-30T12:00:00Z'' None],
        session_store [(''s1'', ''2025-07-30T12:00:00Z'', None),
                       (''s2'', ''2025-07-30T12:00:01Z'', None),
                       (''s3'', ''2025-07-30T12:00:02Z'', None)])"
proof -
  let ?st = "session_store [(''s1'', ''2025-07-30T12:00:00Z'', None),
                            (''s2'', ''2025-07-30T12:00:01Z'', None),
                            (''s3'', ''2025-07-30T12:00:02Z'', None)]"
  have i: "load_index (posix_env noon) ?st ''sessions'' = Inr [(''S1'', [''s1'', ''s2'', ''s3''])]"
    by code_simp
  have m1: "map_of (files ?st) (IMMEDIATE, ''s1'') = Some (session_file ''s1'' ''2025-07-30T12:00:00Z'' None)"
    by (simp add: session_store_def)
  have m2: "map_of (files ?st) (IMMEDIATE, ''s2'') = Some (session_file ''s2'' ''2025-07-30T12:00:01Z'' None)"
    by (simp add: session_store_def)
  have m3: "map_of (files ?st) (IMMEDIATE, ''s3'') = Some (session_file ''s3'' ''2025-07-30T12:00:02Z'' None)"
    by (simp add: session_store_def)
  have l1: "load_entry (posix_env noon) 1000 ?st IMMEDIATE ''s1''
              = Inr (Some (session_entry ''s1'' ''2025-07-30T12:00:00Z'' None), ?st)"
    by (rule load_session_entry [OF m1]) simp_all
  have l2: "load_entry (posix_env noon) 1000 ?st IMMEDIATE ''s2''
              = Inr (Some (session_entry ''s2'' ''2025-07-30T12:00:01Z'' None), ?st)"
    by (rule load_session_entry [OF m2]) simp_all
  have l3: "load_entry (posix_env noon) 1000 ?st IMMEDIATE ''s3''
              = Inr (Some (session_entry ''s3'' ''2025-07-30T12:00:02Z'' None), ?st)"
    by (rule load_session_entry [OF m3]) simp_all
  have r: "query_by_session (posix_env noon) 1000 ?st ''S1''
             = (Inr [session_entry ''s1'' ''2025-07-30T12:00:00Z'' None,
                     session_entry ''s2'' ''2025-07-30T12:00:01Z'' None,
                     session_entry ''s3'' ''2025-07-30T12:00:02Z'' None], ?st)"
    by (simp add: query_by_session_def i all_levels_def l1 l2 l3
        del: load_entry.simps delete_entry.simps)
  show ?thesis
    by (simp add: query_def r sorted_s del: load_entry.simps delete_entry.simps)
qed

text \<open>
  C8 (the code breaks the claim). The claim: every sequence \<^verbatim>\<open>query\<close> returns is ordered by
  the time of creation, latest first. The code sorts by the timestamp strings.
  \<^verbatim>\<open>isoformat()\<close> leaves the fraction out when the microseconds are zero, and \<^verbatim>\<open>'Z'\<close> sorts
  after \<^verbatim>\<open>'.'\<close>: of two entries of session \<^verbatim>\<open>S1\<close>, created at noon sharp and half a second
  later, \<^verbatim>\<open>query\<close> returns the earlier one first. The filter on \<^verbatim>\<open>since\<close> in the same
  method compares the parsed timestamps, for which the second entry is the later one.
\<close>

theorem query_returns_earlier_entry_first:
  "iso_fromisoformat (replace_Z ''2025-07-30T12:00:00Z'')
     = Inr \<lparr>ticks = noon, utcoffset = Some 0\<rparr> \<and>
   iso_fromisoformat (replace_Z ''2025-07-30T12:00:00.500000Z'')
     = Inr \<lparr>ticks = noon + 500000, utcoffset = Some 0\<rparr> \<and>
   save_entry (posix_env noon) empty_store (session_entry ''w1'' ''2025-07-30T12:00:00Z'' None)
     = (True, session_store [(''w1'', ''2025-07-30T12:00:00Z'', None)]) \<and>
   save_entry (posix_env noon) (session_store [(''w1'', ''2025-07-30T12:00:00Z'', None)])
     (session_entry ''w2'' ''2025-07-30T12:00:00.500000Z'' None)
     = (True, session_store [(''w1'', ''2025-07-30T12:00:00Z'', None),
                             (''w2'', ''2025-07-30T12:00:00.500000Z'', None)]) \<and>
   query (posix_env noon) 1000
     (session_store [(''w1'', ''2025-07-30T12:00:00Z'', None),
                     (''w2'', ''2025-07-30T12:00:00.500000Z'', None)])
     None (Some ''S1'') None None
     = (Inr [session_entry ''w1'' ''2025-07-30T12:00:00Z'' None,
             session_entry ''w2'' ''2025-07-30T12:00:00.500000Z'' None],
        session_store [(''w1'', ''2025-07-30T12:00:00Z'', None),
                       (''w2'', ''2025-07-30T12:00:00.500000Z'', None)])"
  using iso_noon_Z iso_half_past_noon_Z save_w1 save_w2 query_w by blast

subsection \<open>Validation\<close>

lemma save_handoff:
  "save_entry (posix_env noon) empty_store entry_handoff
     = (False, \<lparr>files = [((IMMEDIATE, ''f1''), \<lparr>mtime = noon, content = Cut_off\<rparr>)],
                indices = []\<rparr>)"
  by code_simp

lemma save_other_enum:
  "save_entry (posix_env noon) empty_store entry_other_enum
     = (True,
        \<lparr>files = [((WORKING, ''v1''),
                   \<lparr>mtime = noon,
                    content = Whole (to_dict ''working'' ''email'' entry_other_enum)\<rparr>)],
         indices = [(''sessions'', Whole [(''S1'', [''v1''])]), (''tags'', Whole []),
                    (''sources'', Whole [(''email:mailer'', [''v1''])])]\<rparr>)"
  by code_simp




subsection \<open>A failing medium\<close>

text \<open>
  An entry is saved and indexed; it is saved again, and this time the medium fails after
  the file was opened: \<^verbatim>\<open>save_entry\<close> returns False, the record is cut off, and the indices
  still list the id. \<^verbatim>\<open>load_entry\<close> finds nothing to read in the file.
\<close>

lemma save_q1_cut_off:
  "save_entry (env_cut (EntryFile IMMEDIATE ''q1''))
     (session_store [(''q1'', ''2025-07-30T12:00:00Z'', None)])
     (session_entry ''q1'' ''2025-07-30T12:00:00Z'' None)
     = (False, \<lparr>files = [((IMMEDIATE, ''q1''), \<lparr>mtime = noon, content = Cut_off\<rparr>)],
                indices = session_indices [''q1'']\<rparr>)"
  by code_simp

lemma load_q1_cut_off:
  "load_entry (posix_env noon) 1000
     \<lparr>files = [((IMMEDIATE, ''q1''), \<lparr>mtime = noon, content = Cut_off\<rparr>)],
      indices = session_indices [''q1'']\<rparr> IMMEDIATE ''q1''
     = Inr (None, \<lparr>files = [((IMMEDIATE, ''q1''), \<lparr>mtime = noon, content = Cut_off\<rparr>)],
                   indices = session_indices [''q1'']\<rparr>)"
  unfolding depth_1000
  by (rule load_entry_cut_off [where m = noon]) simp

lemma delete_q1_unreadable:
  "delete_entry (env_unreadable (EntryFile IMMEDIATE ''q1'')) 1000
     (session_store [(''q1'', ''2025-07-30T12:00:00Z'', None)]) IMMEDIATE ''q1''
     = Inr (True, \<lparr>files = [], indices = session_indices [''q1'']\<rparr>)"
proof -
  let ?E = "env_unreadable (EntryFile IMMEDIATE ''q1'')"
  let ?st = "session_store [(''q1'', ''2025-07-30T12:00:00Z'', None)]"
  have r: "\<not> can_read ?E (get_file_path IMMEDIATE ''q1'')"
    by (simp add: env_unreadable_def get_file_path_def)
  have u: "can_unlink ?E (get_file_path IMMEDIATE ''q1'')"
    by (simp add: env_unreadable_def)
  have l: "load_entry ?E (Suc 998) ?st IMMEDIATE ''q1'' = Inr (None, ?st)"
    by (rule load_entry_unreadable [OF r])
  have "delete_entry ?E (Suc (Suc 998)) ?st IMMEDIATE ''q1''
          = Inr (True, ?st\<lparr>files := AList.delete (IMMEDIATE, ''q1'') (files ?st)\<rparr>)"
    by (simp only: delete_entry_not_loaded [OF l]) (simp add: file_q1 u)
  then show ?thesis
    by (simp only: depth_1000' [symmetric]) (simp add: q1_gone session_store_def)
qed

text \<open>
  C6 (the code breaks the claim). The claim: a failure of the medium never leaves an index
  line without its record. The code: an entry is saved and indexed; then its file cannot be
  read. \<^verbatim>\<open>delete_entry\<close> gets nothing from \<^verbatim>\<open>load_entry\<close>, skips the indices, unlinks the file
  and returns True. The three indices still list the id.
\<close>

theorem delete_after_failed_read:
  "save_entry (posix_env noon) empty_store (session_entry ''q1'' ''2025-07-30T12:00:00Z'' None)
     = (True, session_store [(''q1'', ''2025-07-30T12:00:00Z'', None)]) \<and>
   \<not> can_read (env_unreadable (EntryFile IMMEDIATE ''q1'')) (get_file_path IMMEDIATE ''q1'') \<and>
   delete_entry (env_unreadable (EntryFile IMMEDIATE ''q1'')) 1000
     (session_store [(''q1'', ''2025-07-30T12:00:00Z'', None)]) IMMEDIATE ''q1''
     = Inr (True, \<lparr>files = [], indices = session_indices [''q1'']\<rparr>) \<and>
   map_of (session_indices [''q1'']) ''sessions'' = Some (Whole [(''S1'', [''q1''])]) \<and>
   map_of (session_indices [''q1'']) ''tags'' = Some (Whole [(''CONTEXT'', [''q1''])]) \<and>
   map_of (session_indices [''q1'']) ''sources'' = Some (Whole [(''chat:claude-001'', [''q1''])])"
  using save_q1 delete_q1_unreadable
  by (simp add: session_indices_def env_unreadable_def get_file_path_def)

end
